theory Spec2Isabelle
  imports Main
begin

section \<open>Values of the JavaScript program\<close>

text \<open>
  Request and response bodies are JSON. A property read that finds nothing yields
  \<open>undefined\<close>, which is \<open>None\<close> here; numbers are kept as integers, since the
  server only ever tests a number for truthiness.
\<close>

datatype json =
    JNull
  | JBool bool
  | JNum int
  | JStr string
  | JArr "json list"
  | JObj "(string \<times> json) list"

type_synonym jsval = "json option"

text \<open>JavaScript truthiness, as used by \<open>!x\<close> and \<open>x || y\<close>.\<close>

fun truthy :: "jsval \<Rightarrow> bool" where
  "truthy None = False"
| "truthy (Some JNull) = False"
| "truthy (Some (JBool b)) = b"
| "truthy (Some (JNum n)) = (n \<noteq> 0)"
| "truthy (Some (JStr s)) = (s \<noteq> [])"
| "truthy (Some (JArr xs)) = True"
| "truthy (Some (JObj kvs)) = True"

text \<open>Property access \<open>o.k\<close> on a JSON value; the first binding of a key is the one read.\<close>

fun field :: "string \<Rightarrow> json \<Rightarrow> jsval" where
  "field k (JObj kvs) = map_of kvs k"
| "field k v = None"

text \<open>
  A value that is a string, \<open>null\<close> or absent: the environment variables, the nullable text
  columns of the data store and the properties of a payments event that the server reads.
\<close>

datatype sval = Absent | Nul | Text string

text \<open>A template literal \<open>`${v}`\<close>.\<close>

fun template :: "sval \<Rightarrow> string" where
  "template Absent = ''undefined''"
| "template Nul = ''null''"
| "template (Text s) = s"

text \<open>How a call into a library ends: it yields a value or it throws, with a message.\<close>

datatype 'r settled = Fulfilled 'r | Rejected string

section \<open>Startup\<close>

text \<open>\<open>process.env\<close>: a variable is a string or is not there.\<close>

type_synonym environ = "string \<Rightarrow> string option"

definition env_truthy :: "environ \<Rightarrow> string \<Rightarrow> bool" where
  "env_truthy e k = (case e k of None \<Rightarrow> False | Some v \<Rightarrow> v \<noteq> [])"

definition env_template :: "environ \<Rightarrow> string \<Rightarrow> string" where
  "env_template e k = (case e k of None \<Rightarrow> ''undefined'' | Some v \<Rightarrow> v)"

datatype startup_result = Exited nat | Listening string

text \<open>
  Past the guard the module body constructs the three clients (\<open>new Stripe(..)\<close>,
  \<open>createClient(.., ..)\<close>, \<open>new GoogleGenAI(..)\<close>) and calls \<open>app.listen\<close>. These are
  library calls and parameters here; one that throws is not caught, which ends the process
  with code 1.
\<close>

record boot =
  new_Stripe :: "string \<Rightarrow> unit settled"
  createClient :: "string \<Rightarrow> string \<Rightarrow> unit settled"
  new_GoogleGenAI :: "string \<Rightarrow> unit settled"
  listen :: "string \<Rightarrow> unit settled"

text \<open>\<open>process.env.PORT || 3001\<close>.\<close>

definition port :: "environ \<Rightarrow> string" where
  "port e = (if env_truthy e ''PORT'' then env_template e ''PORT'' else ''3001'')"

text \<open>
  The module body of server.js: the guard on the environment with its \<open>process.exit(1)\<close>,
  the clients, then \<open>app.listen\<close>.
\<close>

definition startup :: "boot \<Rightarrow> environ \<Rightarrow> startup_result" where
  "startup bt e =
     (if \<not> env_truthy e ''STRIPE_SECRET_KEY'' \<or> \<not> env_truthy e ''SUPABASE_URL''
         \<or> \<not> env_truthy e ''SUPABASE_SERVICE_ROLE_KEY'' \<or> \<not> env_truthy e ''API_KEY''
         \<or> \<not> env_truthy e ''MMM_API_KEY'' \<or> \<not> env_truthy e ''STRIPE_PRICE_ID''
         \<or> \<not> env_truthy e ''APP_URL''
      then Exited 1
      else
        (case new_Stripe bt (env_template e ''STRIPE_SECRET_KEY'') of
           Rejected msg \<Rightarrow> Exited 1
         | Fulfilled _ \<Rightarrow>
             (case createClient bt (env_template e ''SUPABASE_URL'')
                     (env_template e ''SUPABASE_SERVICE_ROLE_KEY'') of
                Rejected msg \<Rightarrow> Exited 1
              | Fulfilled _ \<Rightarrow>
                  (case new_GoogleGenAI bt (env_template e ''API_KEY'') of
                     Rejected msg \<Rightarrow> Exited 1
                   | Fulfilled _ \<Rightarrow>
                       (case listen bt (port e) of
                          Rejected msg \<Rightarrow> Exited 1
                        | Fulfilled _ \<Rightarrow> Listening (port e))))))"

section \<open>The data store\<close>

text \<open>
  A row of the table \<open>user_profiles\<close>. The server reads and writes five columns; whatever
  else a row holds is the record's extension, which no operation below touches.
  A nullable text column is \<open>None\<close> when it is \<open>NULL\<close>.
\<close>

record profile =
  profile_id :: string
  email :: "string option"
  stripe_customer_id :: "string option"
  subscription_id :: "string option"
  subscription_status :: "string option"

text \<open>A column value as JavaScript sees it, and its truthiness.\<close>

definition column_truthy :: "string option \<Rightarrow> bool" where
  "column_truthy c = (case c of None \<Rightarrow> False | Some s \<Rightarrow> s \<noteq> [])"

text \<open>
  The object given to \<open>update\<close>: a key that is absent (or \<open>undefined\<close>, which is not
  serialised) leaves its column alone, \<open>null\<close> clears it, a string is stored.
\<close>

record payload =
  set_stripe_customer_id :: sval
  set_subscription_id :: sval
  set_subscription_status :: sval

fun assign :: "sval \<Rightarrow> string option \<Rightarrow> string option" where
  "assign Absent old = old"
| "assign Nul old = None"
| "assign (Text s) old = Some s"

definition apply_payload :: "payload \<Rightarrow> 'a profile_scheme \<Rightarrow> 'a profile_scheme" where
  "apply_payload pl p =
     p\<lparr>stripe_customer_id := assign (set_stripe_customer_id pl) (stripe_customer_id p),
        subscription_id := assign (set_subscription_id pl) (subscription_id p),
        subscription_status := assign (set_subscription_status pl) (subscription_status p)\<rparr>"

text \<open>\<open>.eq(column, value)\<close> on the two columns the server filters by.\<close>

datatype column = IdColumn | StripeCustomerIdColumn

fun eq_filter :: "column \<Rightarrow> string \<Rightarrow> 'a profile_scheme \<Rightarrow> bool" where
  "eq_filter IdColumn v p = (profile_id p = v)"
| "eq_filter StripeCustomerIdColumn v p = (stripe_customer_id p = Some v)"

text \<open>
  A query of the data store
  yields an object \<open>{ data, error }\<close>, and a query that failed says so in \<open>error\<close>
  (the checkout and portal routes read it); the webhook route also has a \<open>catch\<close> around
  its queries, so a query may throw as well. Which of the three happens is the store's
  choice, given to the model as a \<open>db_fault\<close>.
\<close>

record 'r query_result =
  data :: "'r option"
  error :: "string option"

datatype db_fault = NoFault | ErrorResult string | Throws string

text \<open>\<open>.single()\<close>: exactly one row, or an error.\<close>

definition single :: "'r list \<Rightarrow> 'r query_result" where
  "single rows =
     (case rows of
        [r] \<Rightarrow> \<lparr>data = Some r, error = None\<rparr>
      | _ \<Rightarrow> \<lparr>data = None, error = Some ''JSON object requested, multiple (or no) rows returned''\<rparr>)"

definition db_select_single ::
  "db_fault \<Rightarrow> column \<Rightarrow> string \<Rightarrow> 'a profile_scheme list \<Rightarrow> 'a profile_scheme query_result settled"
where
  "db_select_single f col v tbl =
     (case f of
        NoFault \<Rightarrow> Fulfilled (single (filter (eq_filter col v) tbl))
      | ErrorResult e \<Rightarrow> Fulfilled \<lparr>data = None, error = Some e\<rparr>
      | Throws e \<Rightarrow> Rejected e)"

definition db_update ::
  "db_fault \<Rightarrow> payload \<Rightarrow> column \<Rightarrow> string \<Rightarrow> 'a profile_scheme list
     \<Rightarrow> unit query_result settled \<times> 'a profile_scheme list"
where
  "db_update f pl col v tbl =
     (case f of
        NoFault \<Rightarrow>
          (Fulfilled \<lparr>data = None, error = None\<rparr>,
           map (\<lambda>p. if eq_filter col v p then apply_payload pl p else p) tbl)
      | ErrorResult e \<Rightarrow> (Fulfilled \<lparr>data = None, error = Some e\<rparr>, tbl)
      | Throws e \<Rightarrow> (Rejected e, tbl))"

section \<open>Requests, responses and the services behind the server\<close>

text \<open>
  A request as its route handler receives it: the \<open>Authorization\<close> and
  \<open>stripe-signature\<close> headers (a header that was not sent is absent), \<open>req.body\<close> as the
  JSON middleware left it for the four JSON routes, and the raw body that the webhook
  route gets instead.
\<close>

record request =
  authorization :: "string option"
  stripe_signature :: sval
  req_body :: json
  raw_body :: string

datatype body = JsonBody json | TextBody string

record response =
  http_status :: nat
  http_body :: body

definition res_json :: "nat \<Rightarrow> json \<Rightarrow> response" where
  "res_json c j = \<lparr>http_status = c, http_body = JsonBody j\<rparr>"

definition res_send :: "nat \<Rightarrow> string \<Rightarrow> response" where
  "res_send c t = \<lparr>http_status = c, http_body = TextBody t\<rparr>"

record user =
  user_id :: string
  user_email :: sval

record auth_result =
  auth_user :: "user option"
  auth_error :: "string option"

record checkout_params =
  cp_customer :: string
  cp_mode :: string
  cp_price :: sval
  cp_quantity :: nat
  cp_trial_period_days :: nat
  cp_success_url :: string
  cp_cancel_url :: string

record event_object =
  customer :: sval
  mode :: sval
  subscription :: sval
  status :: sval

record event =
  ev_type :: string
  ev_object :: event_object

record fetch_response =
  fetch_status :: nat
  fetch_json :: "json settled"

text \<open>
  The identity provider, the payments provider, the AI provider and the analytics API are
  not part of the repository: what each returns to a call is a parameter of the model.
  \<open>constructEvent\<close> is the payments library's signature check, which throws on a signature
  that does not verify and returns the event otherwise.
\<close>

record services =
  auth_getUser :: "sval \<Rightarrow> auth_result"
  select_fault :: db_fault
  update_fault :: db_fault
  customers_create :: "sval \<Rightarrow> string \<Rightarrow> string settled"
  checkout_sessions_create :: "checkout_params \<Rightarrow> string settled"
  billingPortal_sessions_create :: "string \<Rightarrow> string \<Rightarrow> string settled"
  constructEvent :: "string \<Rightarrow> sval \<Rightarrow> sval \<Rightarrow> event settled"
  generateContent :: "json \<Rightarrow> json \<Rightarrow> json \<Rightarrow> string settled"
  mmm_fetch :: "string \<Rightarrow> string \<Rightarrow> json \<Rightarrow> fetch_response settled"

text \<open>
  The calls that leave the process, in the order they are made. The world a request runs in is
  the table and this log.
\<close>

datatype call =
    AuthGetUser sval
  | DbSelect column string
  | DbUpdate payload column string
  | CustomersCreate sval string
  | CheckoutSessionsCreate checkout_params
  | PortalSessionsCreate string string
  | GenerateContent json json json
  | Fetch string string json

record 'a world =
  user_profiles :: "'a profile_scheme list"
  calls :: "call list"

definition logged :: "call \<Rightarrow> 'a world \<Rightarrow> 'a world" where
  "logged c w = w\<lparr>calls := calls w @ [c]\<rparr>"

section \<open>The token verifier\<close>

definition startsWith :: "string \<Rightarrow> string \<Rightarrow> bool" where
  "startsWith s p = (take (length p) s = p)"

text \<open>\<open>s.split(' ')\<close>: every space separates, so two spaces in a row give an empty part.\<close>

fun split_space :: "string \<Rightarrow> string list" where
  "split_space [] = [[]]"
| "split_space (c # cs) =
     (if c = CHR '' '' then [] # split_space cs
      else (case split_space cs of [] \<Rightarrow> [[c]] | p # ps \<Rightarrow> (c # p) # ps))"

text \<open>\<open>authHeader.split(' ')[1]\<close>; an index past the end reads \<open>undefined\<close>.\<close>

definition access_token :: "string \<Rightarrow> sval" where
  "access_token authHeader =
     (case split_space authHeader of _ # t # _ \<Rightarrow> Text t | _ \<Rightarrow> Absent)"

definition missing_header :: response where
  "missing_header = res_json 401 (JObj [(''error'', JStr ''Missing or invalid Authorization header'')])"

definition invalid_token :: "string \<Rightarrow> response" where
  "invalid_token msg =
     res_json 401 (JObj [(''error'', JStr ''Invalid access token''), (''details'', JStr msg)])"

text \<open>
  \<open>getSupabaseUser\<close> returns the user (or \<open>null\<close>) and may have sent a response: the second
  component is what it sent, the third the world after its call to the identity provider.
\<close>

definition getSupabaseUser ::
  "services \<Rightarrow> request \<Rightarrow> 'a world \<Rightarrow> user option \<times> response option \<times> 'a world"
where
  "getSupabaseUser sv req w =
     (case authorization req of
        None \<Rightarrow> (None, Some missing_header, w)
      | Some authHeader \<Rightarrow>
          if authHeader = [] \<or> \<not> startsWith authHeader ''Bearer ''
          then (None, Some missing_header, w)
          else
            (let accessToken = access_token authHeader;
                 r = auth_getUser sv accessToken;
                 w' = logged (AuthGetUser accessToken) w
             in case auth_error r of
                  Some msg \<Rightarrow> (None, Some (invalid_token msg), w')
                | None \<Rightarrow> (auth_user r, None, w')))"

section \<open>The billing relay\<close>

definition env_sval :: "environ \<Rightarrow> string \<Rightarrow> sval" where
  "env_sval e k = (case e k of None \<Rightarrow> Absent | Some v \<Rightarrow> Text v)"

definition error_json :: "nat \<Rightarrow> string \<Rightarrow> response" where
  "error_json c msg = res_json c (JObj [(''error'', JStr msg)])"

text \<open>\<open>profile.email || user.email\<close>.\<close>

fun or_else :: "string option \<Rightarrow> sval \<Rightarrow> sval" where
  "or_else (Some s) b = (if s \<noteq> [] then Text s else b)"
| "or_else None b = b"

text \<open>An awaited \<open>update(pl).eq(col, v)\<close> on \<open>user_profiles\<close>.\<close>

definition await_update ::
  "services \<Rightarrow> payload \<Rightarrow> column \<Rightarrow> string \<Rightarrow> 'a world \<Rightarrow> unit query_result settled \<times> 'a world"
where
  "await_update sv pl col v w =
     (let w1 = logged (DbUpdate pl col v) w
      in case db_update (update_fault sv) pl col v (user_profiles w1) of
           (r, tbl) \<Rightarrow> (r, w1\<lparr>user_profiles := tbl\<rparr>))"

text \<open>An awaited \<open>select(..).eq('id', v).single()\<close> on \<open>user_profiles\<close>.\<close>

definition await_select ::
  "services \<Rightarrow> string \<Rightarrow> 'a world \<Rightarrow> 'a profile_scheme query_result settled \<times> 'a world"
where
  "await_select sv v w =
     (let w1 = logged (DbSelect IdColumn v) w
      in (db_select_single (select_fault sv) IdColumn v (user_profiles w1), w1))"

text \<open>
  The body of \<open>if (!stripeCustomerId) { ... }\<close> in the checkout route: the customer is
  created upstream and its identifier stored; what the store answers is not looked at.
\<close>

definition create_customer ::
  "services \<Rightarrow> user \<Rightarrow> 'a profile_scheme \<Rightarrow> string \<Rightarrow> 'a world \<Rightarrow> string settled \<times> 'a world"
where
  "create_customer sv u prof userId w =
     (let em = or_else (email prof) (user_email u);
          w1 = logged (CustomersCreate em userId) w
      in case customers_create sv em userId of
           Rejected msg \<Rightarrow> (Rejected msg, w1)
         | Fulfilled cid \<Rightarrow>
             (case await_update sv
                     \<lparr>set_stripe_customer_id = Text cid, set_subscription_id = Absent,
                      set_subscription_status = Absent\<rparr> IdColumn userId w1 of
                (Rejected msg, w2) \<Rightarrow> (Rejected msg, w2)
              | (Fulfilled _, w2) \<Rightarrow> (Fulfilled cid, w2)))"

definition session_params :: "environ \<Rightarrow> string \<Rightarrow> checkout_params" where
  "session_params env stripeCustomerId =
     \<lparr>cp_customer = stripeCustomerId, cp_mode = ''subscription'',
      cp_price = env_sval env ''STRIPE_PRICE_ID'', cp_quantity = 1, cp_trial_period_days = 2,
      cp_success_url = env_template env ''APP_URL'' @ ''?payment_success=true'',
      cp_cancel_url = env_template env ''APP_URL'' @ ''?payment_cancel=true''\<rparr>"

definition create_session ::
  "services \<Rightarrow> environ \<Rightarrow> string \<Rightarrow> 'a world \<Rightarrow> response option \<times> 'a world"
where
  "create_session sv env stripeCustomerId w =
     (let ps = session_params env stripeCustomerId;
          w1 = logged (CheckoutSessionsCreate ps) w
      in case checkout_sessions_create sv ps of
           Fulfilled sid \<Rightarrow> (Some (res_json 200 (JObj [(''sessionId'', JStr sid)])), w1)
         | Rejected msg \<Rightarrow> (Some (error_json 500 msg), w1))"

definition forbidden :: response where
  "forbidden = error_json 403 ''User token does not match requested user ID.''"

definition profile_not_found :: response where
  "profile_not_found = error_json 404 ''User profile not found.''"

text \<open>
  \<open>POST /api/stripe/create-checkout-session\<close>. A handler returns the response it sent, if it
  sent one, and the world it leaves.
\<close>

definition create_checkout_session ::
  "services \<Rightarrow> environ \<Rightarrow> request \<Rightarrow> 'a world \<Rightarrow> response option \<times> 'a world"
where
  "create_checkout_session sv env req w =
     (let userId = field ''userId'' (req_body req)
      in case getSupabaseUser sv req w of
           (None, res, w1) \<Rightarrow> (if res = None then Some forbidden else res, w1)
         | (Some u, res, w1) \<Rightarrow>
             if Some (JStr (user_id u)) \<noteq> userId
             then (if res = None then Some forbidden else res, w1)
             else
               (case await_select sv (user_id u) w1 of
                  (Rejected msg, w2) \<Rightarrow> (Some (error_json 500 msg), w2)
                | (Fulfilled r, w2) \<Rightarrow>
                    (case (error r, data r) of
                       (None, Some prof) \<Rightarrow>
                         (case stripe_customer_id prof of
                            Some cid \<Rightarrow>
                              if cid \<noteq> [] then create_session sv env cid w2
                              else
                                (case create_customer sv u prof (user_id u) w2 of
                                   (Rejected msg, w3) \<Rightarrow> (Some (error_json 500 msg), w3)
                                 | (Fulfilled new, w3) \<Rightarrow> create_session sv env new w3)
                          | None \<Rightarrow>
                              (case create_customer sv u prof (user_id u) w2 of
                                 (Rejected msg, w3) \<Rightarrow> (Some (error_json 500 msg), w3)
                               | (Fulfilled new, w3) \<Rightarrow> create_session sv env new w3))
                     | _ \<Rightarrow> (Some profile_not_found, w2))))"

text \<open>
  The same route cut at \<open>await stripe.customers.create(...)\<close>. While a handler waits for an
  awaited call, the process runs other requests; what the handler holds when it resumes is
  what it read before. \<open>checkout_until_create\<close> runs the handler up to that call, and
  either the request is over or the handler waits with the user, the profile it read and
  the call's eventual outcome; \<open>checkout_after_create\<close> is the rest of the handler.
\<close>

datatype 'a suspended =
    Responded "response option"
  | AwaitingCustomer user "'a profile_scheme" "string settled"

definition awaiting_customer ::
  "services \<Rightarrow> user \<Rightarrow> 'a profile_scheme \<Rightarrow> 'a world \<Rightarrow> 'a suspended \<times> 'a world"
where
  "awaiting_customer sv u prof w =
     (let em = or_else (email prof) (user_email u)
      in (AwaitingCustomer u prof (customers_create sv em (user_id u)),
          logged (CustomersCreate em (user_id u)) w))"

definition checkout_until_create ::
  "services \<Rightarrow> environ \<Rightarrow> request \<Rightarrow> 'a world \<Rightarrow> 'a suspended \<times> 'a world"
where
  "checkout_until_create sv env req w =
     (let userId = field ''userId'' (req_body req)
      in case getSupabaseUser sv req w of
           (None, res, w1) \<Rightarrow> (Responded (if res = None then Some forbidden else res), w1)
         | (Some u, res, w1) \<Rightarrow>
             if Some (JStr (user_id u)) \<noteq> userId
             then (Responded (if res = None then Some forbidden else res), w1)
             else
               (case await_select sv (user_id u) w1 of
                  (Rejected msg, w2) \<Rightarrow> (Responded (Some (error_json 500 msg)), w2)
                | (Fulfilled r, w2) \<Rightarrow>
                    (case (error r, data r) of
                       (None, Some prof) \<Rightarrow>
                         (case stripe_customer_id prof of
                            Some cid \<Rightarrow>
                              if cid \<noteq> []
                              then (case create_session sv env cid w2 of
                                      (sent, w3) \<Rightarrow> (Responded sent, w3))
                              else awaiting_customer sv u prof w2
                          | None \<Rightarrow> awaiting_customer sv u prof w2)
                     | _ \<Rightarrow> (Responded (Some profile_not_found), w2))))"

definition checkout_after_create ::
  "services \<Rightarrow> environ \<Rightarrow> user \<Rightarrow> string settled \<Rightarrow> 'a world \<Rightarrow> response option \<times> 'a world"
where
  "checkout_after_create sv env u created w =
     (case created of
        Rejected msg \<Rightarrow> (Some (error_json 500 msg), w)
      | Fulfilled cid \<Rightarrow>
          (case await_update sv
                  \<lparr>set_stripe_customer_id = Text cid, set_subscription_id = Absent,
                   set_subscription_status = Absent\<rparr> IdColumn (user_id u) w of
             (Rejected msg, w1) \<Rightarrow> (Some (error_json 500 msg), w1)
           | (Fulfilled _, w1) \<Rightarrow> create_session sv env cid w1))"

definition customer_not_found :: response where
  "customer_not_found = error_json 404 ''Stripe customer ID not found for user.''"

text \<open>\<open>POST /api/stripe/create-portal-session\<close>.\<close>

definition create_portal_session ::
  "services \<Rightarrow> environ \<Rightarrow> request \<Rightarrow> 'a world \<Rightarrow> response option \<times> 'a world"
where
  "create_portal_session sv env req w =
     (case getSupabaseUser sv req w of
        (None, res, w1) \<Rightarrow> (res, w1)
      | (Some u, res, w1) \<Rightarrow>
          (case await_select sv (user_id u) w1 of
             (Rejected msg, w2) \<Rightarrow> (Some (error_json 500 msg), w2)
           | (Fulfilled r, w2) \<Rightarrow>
               (case (error r, data r) of
                  (None, Some prof) \<Rightarrow>
                    (case stripe_customer_id prof of
                       Some cid \<Rightarrow>
                         if cid = [] then (Some customer_not_found, w2)
                         else
                           (let return_url = env_template env ''APP_URL'';
                                w3 = logged (PortalSessionsCreate cid return_url) w2
                            in case billingPortal_sessions_create sv cid return_url of
                                 Fulfilled url \<Rightarrow>
                                   (Some (res_json 200 (JObj [(''url'', JStr url)])), w3)
                               | Rejected msg \<Rightarrow> (Some (error_json 500 msg), w3))
                     | None \<Rightarrow> (Some customer_not_found, w2))
                | _ \<Rightarrow> (Some customer_not_found, w2))))"

section \<open>The webhook ingestor\<close>

definition received :: response where
  "received = res_json 200 (JObj [(''received'', JBool True)])"

text \<open>
  The \<open>switch\<close> on the event's type, inside the \<open>try\<close>. The filter value is the event's
  \<open>customer\<close> as the query builder writes it into the request, \<open>`eq.${value}`\<close>.
\<close>

definition dispatch ::
  "services \<Rightarrow> event \<Rightarrow> 'a world \<Rightarrow> unit query_result settled \<times> 'a world"
where
  "dispatch sv ev w =
     (let eventObject = ev_object ev;
          customerId = customer eventObject
      in if ev_type ev = ''checkout.session.completed'' then
           (if mode eventObject = Text ''subscription''
            then await_update sv
                   \<lparr>set_stripe_customer_id = Absent,
                    set_subscription_id = subscription eventObject,
                    set_subscription_status = Text ''trialing''\<rparr>
                   StripeCustomerIdColumn (template customerId) w
            else (Fulfilled \<lparr>data = None, error = None\<rparr>, w))
         else if ev_type ev = ''customer.subscription.updated''
                 \<or> ev_type ev = ''customer.subscription.deleted'' then
           await_update sv
             \<lparr>set_stripe_customer_id = Absent, set_subscription_id = Absent,
              set_subscription_status = status eventObject\<rparr>
             StripeCustomerIdColumn (template customerId) w
         else (Fulfilled \<lparr>data = None, error = None\<rparr>, w))"

text \<open>\<open>POST /api/stripe/webhook\<close>.\<close>

definition webhook ::
  "services \<Rightarrow> environ \<Rightarrow> request \<Rightarrow> 'a world \<Rightarrow> response option \<times> 'a world"
where
  "webhook sv env req w =
     (case constructEvent sv (raw_body req) (stripe_signature req)
             (env_sval env ''STRIPE_WEBHOOK_SECRET'') of
        Rejected msg \<Rightarrow> (Some (res_send 400 (''Webhook Error: '' @ msg)), w)
      | Fulfilled ev \<Rightarrow>
          (case dispatch sv ev w of
             (Fulfilled _, w1) \<Rightarrow> (Some received, w1)
           | (Rejected msg, w1) \<Rightarrow> (Some (res_send 500 ''Internal Server Error''), w1)))"

section \<open>The generation relay and the analytics relay\<close>

definition missing_fields :: response where
  "missing_fields = error_json 400 ''Missing required fields: prompt and model.''"

definition ai_failed :: "string \<Rightarrow> response" where
  "ai_failed msg =
     res_json 500 (JObj [(''error'', JStr ''Failed to get response from AI model.''),
                         (''details'', JStr msg)])"

text \<open>\<open>config || {}\<close>.\<close>

fun or_empty :: "jsval \<Rightarrow> json" where
  "or_empty None = JObj []"
| "or_empty (Some c) = (if truthy (Some c) then c else JObj [])"

text \<open>\<open>POST /api/gemini/proxy\<close>. Past the guard both \<open>prompt\<close> and \<open>model\<close> are there.\<close>

definition gemini_proxy ::
  "services \<Rightarrow> environ \<Rightarrow> request \<Rightarrow> 'a world \<Rightarrow> response option \<times> 'a world"
where
  "gemini_proxy sv env req w =
     (case getSupabaseUser sv req w of
        (None, res, w1) \<Rightarrow> (res, w1)
      | (Some u, res, w1) \<Rightarrow>
          (let prompt = field ''prompt'' (req_body req);
               model = field ''model'' (req_body req);
               config = field ''config'' (req_body req)
           in if \<not> truthy prompt \<or> \<not> truthy model then (Some missing_fields, w1)
              else
                (case (prompt, model) of
                   (Some p, Some m) \<Rightarrow>
                     (let c = or_empty config;
                          w2 = logged (GenerateContent m p c) w1
                      in case generateContent sv m p c of
                           Fulfilled text \<Rightarrow> (Some (res_send 200 text), w2)
                         | Rejected msg \<Rightarrow> (Some (ai_failed msg), w2))
                 | _ \<Rightarrow> (Some missing_fields, w1))))"

definition mmmApiEndpoint :: string where
  "mmmApiEndpoint = ''https://mmm-api-backend-7tbm.onrender.com/api/run-mmm''"

definition key_not_configured :: response where
  "key_not_configured = error_json 500 ''MMM API key is not configured on the server.''"

definition proxy_failed :: "string \<Rightarrow> response" where
  "proxy_failed msg =
     res_json 500 (JObj [(''error'', JStr ''Failed to proxy request to MMM service.''),
                         (''details'', JStr msg)])"

text \<open>
  \<open>POST /api/mmm/proxy\<close>. The upstream's answer is its status and what \<open>.json()\<close> makes of its
  body: the parsed value, or a throw when the body is not JSON. The request body goes out
  as \<open>JSON.stringify(req.body)\<close>, which the log records as the value itself.
\<close>

definition mmm_proxy ::
  "services \<Rightarrow> environ \<Rightarrow> request \<Rightarrow> 'a world \<Rightarrow> response option \<times> 'a world"
where
  "mmm_proxy sv env req w =
     (case getSupabaseUser sv req w of
        (None, res, w1) \<Rightarrow> (res, w1)
      | (Some u, res, w1) \<Rightarrow>
          (case env ''MMM_API_KEY'' of
             None \<Rightarrow> (Some key_not_configured, w1)
           | Some mmmApiKey \<Rightarrow>
               if mmmApiKey = [] then (Some key_not_configured, w1)
               else
                 (let w2 = logged (Fetch mmmApiEndpoint mmmApiKey (req_body req)) w1
                  in case mmm_fetch sv mmmApiEndpoint mmmApiKey (req_body req) of
                       Rejected msg \<Rightarrow> (Some (proxy_failed msg), w2)
                     | Fulfilled mmmResponse \<Rightarrow>
                         (case fetch_json mmmResponse of
                            Rejected msg \<Rightarrow> (Some (proxy_failed msg), w2)
                          | Fulfilled responseData \<Rightarrow>
                              (Some (res_json (fetch_status mmmResponse) responseData), w2)))))"

section \<open>The routes\<close>

datatype route = CreateCheckoutSession | CreatePortalSession | Webhook | GeminiProxy | MmmProxy

fun handle ::
  "route \<Rightarrow> services \<Rightarrow> environ \<Rightarrow> request \<Rightarrow> 'a world \<Rightarrow> response option \<times> 'a world"
where
  "handle CreateCheckoutSession = create_checkout_session"
| "handle CreatePortalSession = create_portal_session"
| "handle Webhook = webhook"
| "handle GeminiProxy = gemini_proxy"
| "handle MmmProxy = mmm_proxy"

text \<open>A run of the server: requests handled one after the other, each against its own services.\<close>

fun serve ::
  "environ \<Rightarrow> (route \<times> services \<times> request) list \<Rightarrow> 'a world \<Rightarrow> 'a world"
where
  "serve env [] w = w"
| "serve env ((rt, sv, req) # rest) w = serve env rest (snd (handle rt sv env req w))"

text \<open>Two checkout requests of one client, the second sent when the first has been answered.\<close>

definition successive_checkouts ::
  "services \<Rightarrow> services \<Rightarrow> environ \<Rightarrow> request \<Rightarrow> 'a world
     \<Rightarrow> (response option \<times> 'a world) \<times> (response option \<times> 'a world)"
where
  "successive_checkouts sv1 sv2 env req w =
     (let first = create_checkout_session sv1 env req w;
          second = create_checkout_session sv2 env req (snd first)
      in (first, second))"

text \<open>
  Two checkout requests that overlap: the second starts while the first waits for the
  payments provider, then the first finishes, then the second. The result is the world
  when the first has finished and the world when the second has.
\<close>

definition resume ::
  "services \<Rightarrow> environ \<Rightarrow> 'a suspended \<Rightarrow> 'a world \<Rightarrow> 'a world"
where
  "resume sv env p w =
     (case p of
        Responded sent \<Rightarrow> w
      | AwaitingCustomer u prof created \<Rightarrow> snd (checkout_after_create sv env u created w))"

definition overlapping_checkouts ::
  "services \<Rightarrow> services \<Rightarrow> environ \<Rightarrow> request \<Rightarrow> request \<Rightarrow> 'a world \<Rightarrow> 'a world \<times> 'a world"
where
  "overlapping_checkouts sv1 sv2 env req1 req2 w =
     (case checkout_until_create sv1 env req1 w of
        (p1, wa) \<Rightarrow>
          (case checkout_until_create sv2 env req2 wa of
             (p2, wb) \<Rightarrow>
               (let wc = resume sv1 env p1 wb
                in (wc, resume sv2 env p2 wc))))"

text \<open>
  A checkout request overlapped by one other request: the checkout waits for the payments
  provider, the other request is handled to its end, then the checkout finishes.
\<close>

definition overlapping_request ::
  "services \<Rightarrow> request \<Rightarrow> route \<Rightarrow> services \<Rightarrow> request \<Rightarrow> environ \<Rightarrow> 'a world \<Rightarrow> 'a world"
where
  "overlapping_request sv1 req1 rt sv2 req2 env w =
     (case checkout_until_create sv1 env req1 w of
        (p1, wa) \<Rightarrow> resume sv1 env p1 (snd (handle rt sv2 env req2 wa)))"

section \<open>What the properties observe\<close>

text \<open>
  A row before and after: it is the same row, and a customer identifier that was set is
  still there. The server takes an identifier to be set when the column is truthy, that is
  neither \<open>NULL\<close> nor the empty string.
\<close>

definition keeps_customer_id :: "'a profile_scheme \<Rightarrow> 'a profile_scheme \<Rightarrow> bool" where
  "keeps_customer_id p p' =
     (profile_id p' = profile_id p
      \<and> (column_truthy (stripe_customer_id p) \<longrightarrow> stripe_customer_id p' = stripe_customer_id p))"

text \<open>In the log: a customer created upstream, and a customer identifier written to the store.\<close>

fun is_customer_creation :: "call \<Rightarrow> bool" where
  "is_customer_creation (CustomersCreate em uid) = True"
| "is_customer_creation c = False"

fun is_customer_id_store :: "call \<Rightarrow> bool" where
  "is_customer_id_store (DbUpdate pl col v) = (set_stripe_customer_id pl \<noteq> Absent)"
| "is_customer_id_store c = False"

section \<open>Concrete inputs\<close>

text \<open>An environment with every variable of the deployment but the webhook secret.\<close>

definition env_no_webhook_secret :: environ where
  "env_no_webhook_secret =
     [''STRIPE_SECRET_KEY'' \<mapsto> ''sk_test_1'', ''SUPABASE_URL'' \<mapsto> ''https://db.example'',
      ''SUPABASE_SERVICE_ROLE_KEY'' \<mapsto> ''service'', ''API_KEY'' \<mapsto> ''ai'',
      ''MMM_API_KEY'' \<mapsto> ''mmm'', ''STRIPE_PRICE_ID'' \<mapsto> ''price_1'',
      ''APP_URL'' \<mapsto> ''https://app.example'']"

text \<open>Libraries that accept what they are given, and a port that is free.\<close>

definition example_boot :: boot where
  "example_boot =
     \<lparr>new_Stripe = (\<lambda>key. Fulfilled ()),
      createClient = (\<lambda>url key. Fulfilled ()),
      new_GoogleGenAI = (\<lambda>key. Fulfilled ()),
      listen = (\<lambda>p. Fulfilled ())\<rparr>"

definition example_env :: environ where
  "example_env = env_no_webhook_secret(''STRIPE_WEBHOOK_SECRET'' \<mapsto> ''whsec'')"

text \<open>Two profiles: one with no customer identifier yet, one with a subscription.\<close>

definition alice :: profile where
  "alice = \<lparr>profile_id = ''u1'', email = Some ''alice@example.com'', stripe_customer_id = None,
            subscription_id = None, subscription_status = None\<rparr>"

definition bob :: profile where
  "bob = \<lparr>profile_id = ''u2'', email = None, stripe_customer_id = Some ''cus_2'',
          subscription_id = Some ''sub_2'', subscription_status = Some ''active''\<rparr>"

definition example_world :: "unit world" where
  "example_world = \<lparr>user_profiles = [alice, bob], calls = []\<rparr>"

text \<open>The events behind three raw bodies.\<close>

definition example_event :: "string \<Rightarrow> event" where
  "example_event raw =
     (if raw = ''deleted'' then
        \<lparr>ev_type = ''customer.subscription.deleted'',
         ev_object = \<lparr>customer = Text ''cus_2'', mode = Absent, subscription = Absent,
                      status = Text ''canceled''\<rparr>\<rparr>
      else if raw = ''completed'' then
        \<lparr>ev_type = ''checkout.session.completed'',
         ev_object = \<lparr>customer = Text ''cus_9'', mode = Text ''subscription'',
                      subscription = Text ''sub_9'', status = Text ''complete''\<rparr>\<rparr>
      else
        \<lparr>ev_type = ''checkout.session.completed'',
         ev_object = \<lparr>customer = Text ''cus_2'', mode = Text ''payment'',
                      subscription = Nul, status = Text ''complete''\<rparr>\<rparr>)"

text \<open>
  Services that know one token and one signature, with a store that works and an analytics
  API that answers 429 with a body that is not JSON.
\<close>

definition example_services :: services where
  "example_services =
     \<lparr>auth_getUser = (\<lambda>t.
         if t = Text ''token-u1''
         then \<lparr>auth_user = Some \<lparr>user_id = ''u1'', user_email = Text ''u1@example.com''\<rparr>,
               auth_error = None\<rparr>
         else \<lparr>auth_user = None, auth_error = Some ''invalid JWT''\<rparr>),
      select_fault = NoFault,
      update_fault = NoFault,
      customers_create = (\<lambda>em uid. Fulfilled ''cus_1''),
      checkout_sessions_create = (\<lambda>ps. Fulfilled ''cs_1''),
      billingPortal_sessions_create = (\<lambda>cid url. Fulfilled ''https://billing.example/p1''),
      constructEvent = (\<lambda>raw sig secret.
         if sig = Text ''t=1,v1=good'' \<and> secret = Text ''whsec''
         then Fulfilled (example_event raw)
         else Rejected ''No signatures found matching the expected signature for payload''),
      generateContent = (\<lambda>m p c. Fulfilled ''hello''),
      mmm_fetch = (\<lambda>url key b.
         Fulfilled \<lparr>fetch_status = 429,
                    fetch_json = Rejected ''Unexpected token T in JSON at position 0''\<rparr>)\<rparr>"

text \<open>The same services at a later call, when the payments provider issues the next identifier.\<close>

definition example_services_later :: services where
  "example_services_later =
     example_services\<lparr>customers_create := \<lambda>em uid. Fulfilled ''cus_1b''\<rparr>"

text \<open>The same services while the store answers every update with an error object.\<close>

definition example_services_store_down :: services where
  "example_services_store_down =
     example_services\<lparr>update_fault := ErrorResult ''connection refused''\<rparr>"

definition bearer_request :: "string \<Rightarrow> json \<Rightarrow> request" where
  "bearer_request tok b =
     \<lparr>authorization = Some (''Bearer '' @ tok), stripe_signature = Absent, req_body = b,
      raw_body = []\<rparr>"

definition anonymous_request :: "json \<Rightarrow> request" where
  "anonymous_request b =
     \<lparr>authorization = None, stripe_signature = Absent, req_body = b, raw_body = []\<rparr>"

definition webhook_request :: "string \<Rightarrow> string \<Rightarrow> request" where
  "webhook_request sig raw =
     \<lparr>authorization = None, stripe_signature = Text sig, req_body = JObj [], raw_body = raw\<rparr>"

definition checkout_u1 :: request where
  "checkout_u1 = bearer_request ''token-u1'' (JObj [(''userId'', JStr ''u1'')])"

section \<open>Properties of startup\<close>

lemmas ex_defs = example_boot_def env_no_webhook_secret_def example_env_def alice_def bob_def example_world_def
  example_event_def example_services_def bearer_request_def anonymous_request_def
  webhook_request_def checkout_u1_def

text \<open>
  C2. The claim lists the payments webhook secret among the values whose absence stops the
  process. The guard of server.js does not read it: with every other variable set and
  \<open>STRIPE_WEBHOOK_SECRET\<close> absent, and libraries that accept the values of the other
  variables, the process does not exit and listens on the default port.
\<close>

theorem startup_without_webhook_secret:
  assumes "new_Stripe bt ''sk_test_1'' = Fulfilled ()"
    and "createClient bt ''https://db.example'' ''service'' = Fulfilled ()"
    and "new_GoogleGenAI bt ''ai'' = Fulfilled ()"
    and "listen bt ''3001'' = Fulfilled ()"
  shows "env_no_webhook_secret ''STRIPE_WEBHOOK_SECRET'' = None
         \<and> startup bt env_no_webhook_secret = Listening ''3001''"
  using assms
  by (simp add: env_no_webhook_secret_def startup_def port_def env_truthy_def env_template_def)

theorem startup_without_webhook_secret_witness:
  "env_no_webhook_secret ''STRIPE_WEBHOOK_SECRET'' = None
   \<and> startup example_boot env_no_webhook_secret = Listening ''3001''"
proof -
  have h1: "new_Stripe example_boot ''sk_test_1'' = Fulfilled ()"
    and h2: "createClient example_boot ''https://db.example'' ''service'' = Fulfilled ()"
    and h3: "new_GoogleGenAI example_boot ''ai'' = Fulfilled ()"
    and h4: "listen example_boot ''3001'' = Fulfilled ()"
    by (simp_all add: example_boot_def)
  show ?thesis
    by (rule startup_without_webhook_secret [OF h1 h2 h3 h4])
qed

text \<open>
  What the guard does check: when one of the seven variables it names is absent or empty,
  the process exits with code 1, whatever the libraries would have done.
\<close>

theorem startup_exits_when_checked_variable_missing:
  assumes "k \<in> {''STRIPE_SECRET_KEY'', ''SUPABASE_URL'', ''SUPABASE_SERVICE_ROLE_KEY'', ''API_KEY'',
              ''MMM_API_KEY'', ''STRIPE_PRICE_ID'', ''APP_URL''}"
    and "e k = None \<or> e k = Some []"
  shows "startup bt e = Exited 1"
  using assms by (auto simp add: startup_def env_truthy_def)

theorem startup_exits_when_checked_variable_missing_witness:
  "startup example_boot (env_no_webhook_secret(''APP_URL'' := None)) = Exited 1"
proof -
  have h1: "''APP_URL'' \<in> {''STRIPE_SECRET_KEY'', ''SUPABASE_URL'', ''SUPABASE_SERVICE_ROLE_KEY'',
              ''API_KEY'', ''MMM_API_KEY'', ''STRIPE_PRICE_ID'', ''APP_URL''}"
    by simp
  have h2: "(env_no_webhook_secret(''APP_URL'' := None)) ''APP_URL'' = None
            \<or> (env_no_webhook_secret(''APP_URL'' := None)) ''APP_URL'' = Some []"
    by simp
  show ?thesis
    by (rule startup_exits_when_checked_variable_missing
          [where e = "env_no_webhook_secret(''APP_URL'' := None)", OF h1 h2])
qed

section \<open>Properties of the webhook ingestor\<close>

text \<open>
  C1. When the signature check throws, the handler answers 400 with the check's message and
  leaves the world as it was: the table is the same and no call was made, so the body is
  never dispatched.
\<close>

theorem webhook_invalid_signature_rejected:
  assumes "constructEvent sv (raw_body req) (stripe_signature req)
             (env_sval env ''STRIPE_WEBHOOK_SECRET'') = Rejected msg"
  shows "webhook sv env req w =
           (Some \<lparr>http_status = 400, http_body = TextBody (''Webhook Error: '' @ msg)\<rparr>, w)"
  using assms by (simp add: webhook_def res_send_def)

theorem webhook_invalid_signature_rejected_witness:
  "webhook example_services example_env (webhook_request ''t=1,v1=forged'' ''deleted'')
     example_world =
   (Some \<lparr>http_status = 400,
          http_body = TextBody
            ''Webhook Error: No signatures found matching the expected signature for payload''\<rparr>,
    example_world)"
proof -
  have h: "constructEvent example_services
             (raw_body (webhook_request ''t=1,v1=forged'' ''deleted''))
             (stripe_signature (webhook_request ''t=1,v1=forged'' ''deleted''))
             (env_sval example_env ''STRIPE_WEBHOOK_SECRET'')
           = Rejected ''No signatures found matching the expected signature for payload''"
    by (simp add: example_services_def webhook_request_def)
  show ?thesis
    using webhook_invalid_signature_rejected [OF h, of example_world] by simp
qed

text \<open>
  C3. The claim asks for 500 whenever the store fails to write. The handler awaits the
  update and drops its answer: when the store answers the update of a
  \<open>customer.subscription.deleted\<close> event with an error object, the handler still answers
  200 with \<open>{ received: true }\<close>, and the profile keeps its old status.
\<close>

theorem webhook_store_error_acknowledged:
  "webhook (example_services\<lparr>update_fault := ErrorResult ''connection refused''\<rparr>) example_env
     (webhook_request ''t=1,v1=good'' ''deleted'') example_world
   = (Some \<lparr>http_status = 200, http_body = JsonBody (JObj [(''received'', JBool True)])\<rparr>,
      example_world\<lparr>calls :=
        [DbUpdate \<lparr>set_stripe_customer_id = Absent, set_subscription_id = Absent,
                   set_subscription_status = Text ''canceled''\<rparr>
           StripeCustomerIdColumn ''cus_2'']\<rparr>)"
  by (simp add: ex_defs webhook_def dispatch_def await_update_def db_update_def logged_def
      env_sval_def received_def res_json_def)

theorem webhook_store_error_acknowledged_witness:
  "fst (webhook (example_services\<lparr>update_fault := ErrorResult ''connection refused''\<rparr>)
          example_env (webhook_request ''t=1,v1=good'' ''deleted'') example_world)
   \<noteq> Some (res_send 500 ''Internal Server Error'')"
  using webhook_store_error_acknowledged by (simp add: res_send_def)

text \<open>
  Only a query that throws reaches the \<open>catch\<close> of the webhook route: then the handler
  answers 500 and the table is unchanged.
\<close>

theorem webhook_store_throw_is_500:
  assumes "constructEvent sv (raw_body req) (stripe_signature req)
             (env_sval env ''STRIPE_WEBHOOK_SECRET'') = Fulfilled ev"
    and "ev_type ev = ''customer.subscription.updated''
         \<or> ev_type ev = ''customer.subscription.deleted''
         \<or> (ev_type ev = ''checkout.session.completed''
             \<and> mode (ev_object ev) = Text ''subscription'')"
    and "update_fault sv = Throws e"
  shows "fst (webhook sv env req w)
           = Some \<lparr>http_status = 500, http_body = TextBody ''Internal Server Error''\<rparr>
         \<and> user_profiles (snd (webhook sv env req w)) = user_profiles w"
  using assms
  by (auto simp add: webhook_def dispatch_def await_update_def db_update_def logged_def Let_def
      res_send_def)

theorem webhook_store_throw_is_500_witness:
  "fst (webhook (example_services\<lparr>update_fault := Throws ''socket hang up''\<rparr>) example_env
          (webhook_request ''t=1,v1=good'' ''deleted'') example_world)
     = Some \<lparr>http_status = 500, http_body = TextBody ''Internal Server Error''\<rparr>
   \<and> user_profiles
        (snd (webhook (example_services\<lparr>update_fault := Throws ''socket hang up''\<rparr>) example_env
                (webhook_request ''t=1,v1=good'' ''deleted'') example_world))
     = [alice, bob]"
proof -
  let ?sv = "example_services\<lparr>update_fault := Throws ''socket hang up''\<rparr>"
  let ?req = "webhook_request ''t=1,v1=good'' ''deleted''"
  have h1: "constructEvent ?sv (raw_body ?req) (stripe_signature ?req)
              (env_sval example_env ''STRIPE_WEBHOOK_SECRET'') = Fulfilled (example_event ''deleted'')"
    by (simp add: ex_defs env_sval_def)
  have h2: "ev_type (example_event ''deleted'') = ''customer.subscription.updated''
            \<or> ev_type (example_event ''deleted'') = ''customer.subscription.deleted''
            \<or> (ev_type (example_event ''deleted'') = ''checkout.session.completed''
                \<and> mode (ev_object (example_event ''deleted'')) = Text ''subscription'')"
    by (simp add: example_event_def)
  have h3: "update_fault ?sv = Throws ''socket hang up''"
    by simp
  show ?thesis
    using webhook_store_throw_is_500 [OF h1 h2 h3, of example_world]
    by (simp add: example_world_def)
qed

text \<open>
  C7. For a validly signed \<open>customer.subscription.updated\<close> or
  \<open>customer.subscription.deleted\<close> event that reports a status string, with a store that
  carries the update out, the handler answers 200 and the table afterwards is the table
  before with every profile of the event's customer given exactly that status: each such
  profile differs from its old self in \<open>subscription_status\<close> alone, and every other
  profile is as it was.
\<close>

theorem subscription_event_sets_status:
  assumes "constructEvent sv (raw_body req) (stripe_signature req)
             (env_sval env ''STRIPE_WEBHOOK_SECRET'') = Fulfilled ev"
    and "ev_type ev = ''customer.subscription.updated''
         \<or> ev_type ev = ''customer.subscription.deleted''"
    and "status (ev_object ev) = Text s"
    and "update_fault sv = NoFault"
  shows "\<exists>w'. webhook sv env req w =
                 (Some \<lparr>http_status = 200,
                        http_body = JsonBody (JObj [(''received'', JBool True)])\<rparr>, w')
           \<and> user_profiles w' =
               map (\<lambda>p. if stripe_customer_id p = Some (template (customer (ev_object ev)))
                         then p\<lparr>subscription_status := Some s\<rparr> else p) (user_profiles w)"
  using assms
  by (auto simp add: webhook_def dispatch_def await_update_def db_update_def logged_def
      apply_payload_def Let_def received_def res_json_def)

theorem subscription_event_sets_status_witness:
  "\<exists>w'. webhook example_services example_env (webhook_request ''t=1,v1=good'' ''deleted'')
           example_world =
           (Some \<lparr>http_status = 200,
                  http_body = JsonBody (JObj [(''received'', JBool True)])\<rparr>, w')
        \<and> user_profiles w' = [alice, bob\<lparr>subscription_status := Some ''canceled''\<rparr>]"
proof -
  let ?req = "webhook_request ''t=1,v1=good'' ''deleted''"
  have h1: "constructEvent example_services (raw_body ?req) (stripe_signature ?req)
              (env_sval example_env ''STRIPE_WEBHOOK_SECRET'') = Fulfilled (example_event ''deleted'')"
    by (simp add: ex_defs env_sval_def)
  have h2: "ev_type (example_event ''deleted'') = ''customer.subscription.updated''
            \<or> ev_type (example_event ''deleted'') = ''customer.subscription.deleted''"
    by (simp add: example_event_def)
  have h3: "status (ev_object (example_event ''deleted'')) = Text ''canceled''"
    by (simp add: example_event_def)
  have h4: "update_fault example_services = NoFault"
    by (simp add: example_services_def)
  show ?thesis
    using subscription_event_sets_status [OF h1 h2 h3 h4, of example_world]
    by (simp add: example_event_def example_world_def alice_def bob_def)
qed

text \<open>
  C8. For a validly signed \<open>checkout.session.completed\<close> event whose customer identifier no
  stored profile carries, and a store whose answer is not a throw, the handler answers 200
  with \<open>{ received: true }\<close> and the table is unchanged.
\<close>

theorem checkout_completed_unknown_customer:
  assumes "constructEvent sv (raw_body req) (stripe_signature req)
             (env_sval env ''STRIPE_WEBHOOK_SECRET'') = Fulfilled ev"
    and "ev_type ev = ''checkout.session.completed''"
    and "\<forall>p \<in> set (user_profiles w).
           stripe_customer_id p \<noteq> Some (template (customer (ev_object ev)))"
    and "\<forall>e. update_fault sv \<noteq> Throws e"
  shows "\<exists>w'. webhook sv env req w =
                 (Some \<lparr>http_status = 200,
                        http_body = JsonBody (JObj [(''received'', JBool True)])\<rparr>, w')
           \<and> user_profiles w' = user_profiles w"
  using assms
  by (cases "update_fault sv")
     (auto simp add: webhook_def dispatch_def await_update_def db_update_def logged_def
      Let_def map_idI received_def res_json_def)

theorem checkout_completed_unknown_customer_witness:
  "\<exists>w'. webhook example_services example_env (webhook_request ''t=1,v1=good'' ''completed'')
           example_world =
           (Some \<lparr>http_status = 200,
                  http_body = JsonBody (JObj [(''received'', JBool True)])\<rparr>, w')
        \<and> user_profiles w' = [alice, bob]"
proof -
  let ?req = "webhook_request ''t=1,v1=good'' ''completed''"
  have h1: "constructEvent example_services (raw_body ?req) (stripe_signature ?req)
              (env_sval example_env ''STRIPE_WEBHOOK_SECRET'')
            = Fulfilled (example_event ''completed'')"
    by (simp add: ex_defs env_sval_def)
  have h2: "ev_type (example_event ''completed'') = ''checkout.session.completed''"
    by (simp add: example_event_def)
  have h3: "\<forall>p \<in> set (user_profiles example_world).
              stripe_customer_id p
                \<noteq> Some (template (customer (ev_object (example_event ''completed''))))"
    by (simp add: example_event_def example_world_def alice_def bob_def)
  have h4: "\<forall>e. update_fault example_services \<noteq> Throws e"
    by (simp add: example_services_def)
  show ?thesis
    using checkout_completed_unknown_customer [OF h1 h2 h3 h4]
    by (simp add: example_world_def)
qed

text \<open>
  C10. For a validly signed \<open>checkout.session.completed\<close> event whose mode is not
  \<open>subscription\<close>, the handler answers 200 with \<open>{ received: true }\<close> and the world is as it
  was: the table is the same and the store was not called.
\<close>

theorem checkout_completed_other_mode_ignored:
  assumes "constructEvent sv (raw_body req) (stripe_signature req)
             (env_sval env ''STRIPE_WEBHOOK_SECRET'') = Fulfilled ev"
    and "ev_type ev = ''checkout.session.completed''"
    and "mode (ev_object ev) \<noteq> Text ''subscription''"
  shows "webhook sv env req w =
           (Some \<lparr>http_status = 200,
                  http_body = JsonBody (JObj [(''received'', JBool True)])\<rparr>, w)"
  using assms by (simp add: webhook_def dispatch_def received_def res_json_def)

theorem checkout_completed_other_mode_ignored_witness:
  "webhook example_services example_env (webhook_request ''t=1,v1=good'' ''payment'')
     example_world =
   (Some \<lparr>http_status = 200, http_body = JsonBody (JObj [(''received'', JBool True)])\<rparr>,
    example_world)"
proof -
  let ?req = "webhook_request ''t=1,v1=good'' ''payment''"
  have h1: "constructEvent example_services (raw_body ?req) (stripe_signature ?req)
              (env_sval example_env ''STRIPE_WEBHOOK_SECRET'')
            = Fulfilled (example_event ''payment'')"
    by (simp add: ex_defs env_sval_def)
  have h2: "ev_type (example_event ''payment'') = ''checkout.session.completed''"
    by (simp add: example_event_def)
  have h3: "mode (ev_object (example_event ''payment'')) \<noteq> Text ''subscription''"
    by (simp add: example_event_def)
  show ?thesis
    using checkout_completed_other_mode_ignored [OF h1 h2 h3, of example_world] by simp
qed

section \<open>Properties of the analytics relay\<close>

text \<open>
  C9, as stated, fails: the upstream call completes with status 429 and a body that is not
  JSON, \<open>.json()\<close> throws, and the relay answers the generic 500.
\<close>

theorem mmm_proxy_429_not_json_counterexample:
  "mmm_fetch example_services mmmApiEndpoint ''mmm'' (JObj [])
     = Fulfilled \<lparr>fetch_status = 429,
                  fetch_json = Rejected ''Unexpected token T in JSON at position 0''\<rparr>
   \<and> fst (mmm_proxy example_services example_env (bearer_request ''token-u1'' (JObj []))
            example_world)
     = Some \<lparr>http_status = 500,
             http_body = JsonBody
               (JObj [(''error'', JStr ''Failed to proxy request to MMM service.''),
                      (''details'', JStr ''Unexpected token T in JSON at position 0'')])\<rparr>"
  by (simp add: ex_defs mmm_proxy_def getSupabaseUser_def startsWith_def access_token_def
      logged_def proxy_failed_def res_json_def)

text \<open>
  C9, amended. For an authenticated request, with the analytics key configured and an
  upstream call that completes: when the upstream body parses as JSON the response is the
  upstream's status code with the parsed body, whatever the status (a 429 stays a 429);
  when it does not parse, the response is the generic 500 envelope.
\<close>

theorem mmm_proxy_passes_json_through:
  assumes "getSupabaseUser sv req w = (Some u, res, w1)"
    and "env ''MMM_API_KEY'' = Some k" and "k \<noteq> []"
    and "mmm_fetch sv mmmApiEndpoint k (req_body req) = Fulfilled r"
  shows "fst (mmm_proxy sv env req w) =
           Some (case fetch_json r of
                   Fulfilled j \<Rightarrow> \<lparr>http_status = fetch_status r, http_body = JsonBody j\<rparr>
                 | Rejected msg \<Rightarrow>
                     \<lparr>http_status = 500,
                      http_body = JsonBody
                        (JObj [(''error'', JStr ''Failed to proxy request to MMM service.''),
                               (''details'', JStr msg)])\<rparr>)"
  using assms
  by (auto simp add: mmm_proxy_def Let_def res_json_def proxy_failed_def split: settled.splits)

theorem mmm_proxy_passes_json_through_witness:
  "fst (mmm_proxy
          (example_services\<lparr>mmm_fetch := \<lambda>url key b.
             Fulfilled \<lparr>fetch_status = 429,
                        fetch_json = Fulfilled (JObj [(''error'', JStr ''rate limited'')])\<rparr>\<rparr>)
          example_env (bearer_request ''token-u1'' (JObj [])) example_world)
   = Some \<lparr>http_status = 429,
           http_body = JsonBody (JObj [(''error'', JStr ''rate limited'')])\<rparr>"
proof -
  let ?sv = "example_services\<lparr>mmm_fetch := \<lambda>url key b.
             Fulfilled \<lparr>fetch_status = 429,
                        fetch_json = Fulfilled (JObj [(''error'', JStr ''rate limited'')])\<rparr>\<rparr>"
  let ?req = "bearer_request ''token-u1'' (JObj [])"
  let ?u = "\<lparr>user_id = ''u1'', user_email = Text ''u1@example.com''\<rparr>"
  have h1: "getSupabaseUser ?sv ?req example_world
            = (Some ?u, None, logged (AuthGetUser (Text ''token-u1'')) example_world)"
    by (simp add: ex_defs getSupabaseUser_def startsWith_def access_token_def)
  have h2: "example_env ''MMM_API_KEY'' = Some ''mmm''"
    by (simp add: ex_defs)
  have h3: "''mmm'' \<noteq> []" by simp
  have h4: "mmm_fetch ?sv mmmApiEndpoint ''mmm'' (req_body ?req)
            = Fulfilled \<lparr>fetch_status = 429,
                         fetch_json = Fulfilled (JObj [(''error'', JStr ''rate limited'')])\<rparr>"
    by (simp add: ex_defs)
  show ?thesis
    using mmm_proxy_passes_json_through [where env = example_env, OF h1 h2 h3 h4] by simp
qed

section \<open>Properties of the token verifier\<close>

lemma getSupabaseUser_table:
  "getSupabaseUser sv req w = (u, res, w') \<Longrightarrow> user_profiles w' = user_profiles w"
  by (auto simp add: getSupabaseUser_def logged_def Let_def split: option.splits if_splits)

lemma getSupabaseUser_sent:
  "getSupabaseUser sv req w = (Some u, res, w') \<Longrightarrow> res = None"
  by (auto simp add: getSupabaseUser_def logged_def Let_def split: option.splits if_splits)

lemma getSupabaseUser_calls:
  "getSupabaseUser sv req w = (u, res, w1) \<Longrightarrow>
     calls w1 = calls w \<or> (\<exists>t. calls w1 = calls w @ [AuthGetUser t])"
  by (auto simp add: getSupabaseUser_def logged_def Let_def split: option.splits if_splits)

lemma getSupabaseUser_unauthenticated:
  assumes "authorization req = None
           \<or> (\<exists>h. authorization req = Some h
                  \<and> (\<not> startsWith h ''Bearer ''
                      \<or> auth_error (auth_getUser sv (access_token h)) \<noteq> None))"
  shows "\<exists>resp w'. getSupabaseUser sv req w = (None, Some resp, w') \<and> http_status resp = 401
           \<and> user_profiles w' = user_profiles w
           \<and> (calls w' = calls w
               \<or> (\<exists>h. authorization req = Some h
                      \<and> calls w' = calls w @ [AuthGetUser (access_token h)]))"
  using assms
  by (auto simp add: getSupabaseUser_def logged_def Let_def missing_header_def invalid_token_def
      res_json_def startsWith_def split: option.splits)

text \<open>
  C6. On each route but the webhook, a request whose \<open>Authorization\<close> header is absent, does
  not begin with \<open>Bearer \<close>, or carries a token for which the identity provider returns an
  error, is answered 401; the table is unchanged, and the only call that may have left the
  process is the one that asked the identity provider about the token.
\<close>

theorem unauthenticated_request_is_401:
  assumes "rt \<noteq> Webhook"
    and "authorization req = None
           \<or> (\<exists>h. authorization req = Some h
                  \<and> (\<not> startsWith h ''Bearer ''
                      \<or> auth_error (auth_getUser sv (access_token h)) \<noteq> None))"
  shows "\<exists>resp w'. handle rt sv env req w = (Some resp, w') \<and> http_status resp = 401
           \<and> user_profiles w' = user_profiles w
           \<and> (calls w' = calls w
               \<or> (\<exists>h. authorization req = Some h
                      \<and> calls w' = calls w @ [AuthGetUser (access_token h)]))"
proof -
  from getSupabaseUser_unauthenticated [OF assms(2), of w]
  obtain resp w' where g: "getSupabaseUser sv req w = (None, Some resp, w')"
    and rest: "http_status resp = 401" "user_profiles w' = user_profiles w"
      "calls w' = calls w
       \<or> (\<exists>h. authorization req = Some h \<and> calls w' = calls w @ [AuthGetUser (access_token h)])"
    by blast
  have "handle rt sv env req w = (Some resp, w')"
    using assms(1) g
    by (cases rt)
       (simp_all add: create_checkout_session_def create_portal_session_def gemini_proxy_def
          mmm_proxy_def)
  with rest show ?thesis by blast
qed

theorem unauthenticated_request_is_401_witness:
  "(\<exists>resp w'. handle GeminiProxy example_services example_env
                 (anonymous_request (JObj [(''prompt'', JStr ''hi''), (''model'', JStr ''m'')]))
                 example_world = (Some resp, w')
       \<and> http_status resp = 401 \<and> user_profiles w' = [alice, bob] \<and> calls w' = [])
   \<and> (\<exists>resp w'. handle CreateCheckoutSession example_services example_env
                 (bearer_request ''stale'' (JObj [(''userId'', JStr ''u1'')]))
                 example_world = (Some resp, w')
       \<and> http_status resp = 401 \<and> user_profiles w' = [alice, bob])"
proof -
  let ?r1 = "anonymous_request (JObj [(''prompt'', JStr ''hi''), (''model'', JStr ''m'')])"
  let ?r2 = "bearer_request ''stale'' (JObj [(''userId'', JStr ''u1'')])"
  have a1: "GeminiProxy \<noteq> Webhook" and a2: "CreateCheckoutSession \<noteq> Webhook" by simp_all
  have c1: "authorization ?r1 = None" by (simp add: anonymous_request_def)
  have c2: "authorization ?r2 = Some ''Bearer stale''" by (simp add: bearer_request_def)
  have b1: "authorization ?r1 = None
           \<or> (\<exists>h. authorization ?r1 = Some h
                  \<and> (\<not> startsWith h ''Bearer ''
                      \<or> auth_error (auth_getUser example_services (access_token h)) \<noteq> None))"
    by (simp add: c1)
  have b2: "authorization ?r2 = None
           \<or> (\<exists>h. authorization ?r2 = Some h
                  \<and> (\<not> startsWith h ''Bearer ''
                      \<or> auth_error (auth_getUser example_services (access_token h)) \<noteq> None))"
    by (simp add: c2 example_services_def access_token_def)
  have t: "user_profiles example_world = [alice, bob]" "calls example_world = []"
    by (simp_all add: example_world_def)
  show ?thesis
    using unauthenticated_request_is_401 [OF a1 b1, of example_env example_world]
      unauthenticated_request_is_401 [OF a2 b2, of example_env example_world]
    by (simp add: c1 t) blast
qed

section \<open>Properties of the billing relay and of the customer identifier\<close>

lemma keeps_refl: "list_all2 keeps_customer_id tbl tbl"
  by (simp add: list_all2_refl keeps_customer_id_def)

lemma keeps_trans:
  assumes "list_all2 keeps_customer_id xs ys" and "list_all2 keeps_customer_id ys zs"
  shows "list_all2 keeps_customer_id xs zs"
proof (rule list_all2_trans [OF _ assms])
  fix a b c :: "'a profile_scheme"
  assume "keeps_customer_id a b" and "keeps_customer_id b c"
  then show "keeps_customer_id a c" by (auto simp add: keeps_customer_id_def)
qed

lemma await_select_table:
  "await_select sv v w = (r, w') \<Longrightarrow> user_profiles w' = user_profiles w"
  by (auto simp add: await_select_def logged_def Let_def)

lemma await_select_calls:
  "await_select sv v w = (q, w') \<Longrightarrow> calls w' = calls w @ [DbSelect IdColumn v]"
  by (auto simp add: await_select_def logged_def Let_def)

text \<open>A \<open>single()\<close> that returns a row returns the one row of the table with that id.\<close>

lemma await_select_row:
  assumes "await_select sv v w = (Fulfilled qr, w')" and "data qr = Some prof"
  shows "filter (eq_filter IdColumn v) (user_profiles w) = [prof]"
  using assms
  by (auto simp add: await_select_def db_select_single_def single_def logged_def Let_def
      split: db_fault.splits list.splits)

lemma await_select_data:
  assumes "await_select sv v w = (Fulfilled qr, w')" and "data qr = Some prof"
  shows "prof \<in> set (user_profiles w) \<and> profile_id prof = v"
proof -
  have "prof \<in> set (filter (eq_filter IdColumn v) (user_profiles w))"
    by (simp add: await_select_row [OF assms])
  then show ?thesis by simp
qed

lemma await_select_only:
  assumes "await_select sv v w = (Fulfilled qr, w')" and "data qr = Some prof"
  shows "\<forall>p \<in> set (user_profiles w). profile_id p = v \<longrightarrow> p = prof"
proof -
  have "set (filter (eq_filter IdColumn v) (user_profiles w)) = {prof}"
    by (simp add: await_select_row [OF assms])
  then show ?thesis by auto
qed

lemma create_session_ok:
  "create_session sv env cid w = (r, w') \<Longrightarrow>
     calls w' = calls w @ [CheckoutSessionsCreate (session_params env cid)]
     \<and> user_profiles w' = user_profiles w"
  by (auto simp add: create_session_def logged_def Let_def split: settled.splits)

lemma create_customer_keeps:
  assumes "create_customer sv u prof v w = (r, w')"
    and "\<forall>p \<in> set (user_profiles w). profile_id p = v \<longrightarrow> \<not> column_truthy (stripe_customer_id p)"
  shows "list_all2 keeps_customer_id (user_profiles w) (user_profiles w')"
  using assms
  by (cases "update_fault sv")
     (auto simp add: create_customer_def await_update_def db_update_def logged_def Let_def
        list_all2_map2 keeps_customer_id_def apply_payload_def list_all2_refl
        split: settled.splits if_splits intro!: list_all2_all_nthI)

lemma create_customer_ok:
  assumes "create_customer sv u prof v w = (Fulfilled new, w')" and "update_fault sv = NoFault"
  shows "customers_create sv (or_else (email prof) (user_email u)) v = Fulfilled new
     \<and> calls w' = calls w @ [CustomersCreate (or_else (email prof) (user_email u)) v,
          DbUpdate \<lparr>set_stripe_customer_id = Text new, set_subscription_id = Absent,
                    set_subscription_status = Absent\<rparr> IdColumn v]
     \<and> user_profiles w' =
         map (\<lambda>p. if profile_id p = v then p\<lparr>stripe_customer_id := Some new\<rparr> else p)
           (user_profiles w)"
  using assms
  by (auto simp add: create_customer_def await_update_def db_update_def logged_def Let_def
      apply_payload_def split: settled.splits)

text \<open>
  The path of the checkout route past the token check and the profile lookup: either the
  handler stopped before, leaving the table alone, or it went on with the profile found.
\<close>

lemma checkout_path:
  assumes "create_checkout_session sv env req w = (r, w')"
  shows "(user_profiles w' = user_profiles w
          \<and> (\<forall>x. r = Some x \<longrightarrow> http_status x \<noteq> 200))
       \<or> (\<exists>u res w1 qr prof w2.
             getSupabaseUser sv req w = (Some u, res, w1)
           \<and> await_select sv (user_id u) w1 = (Fulfilled qr, w2)
           \<and> data qr = Some prof
           \<and> (if column_truthy (stripe_customer_id prof)
              then \<exists>cid. stripe_customer_id prof = Some cid
                     \<and> create_session sv env cid w2 = (r, w')
              else \<exists>cr w3. create_customer sv u prof (user_id u) w2 = (cr, w3)
                     \<and> (case cr of
                           Rejected msg \<Rightarrow> r = Some (error_json 500 msg) \<and> w' = w3
                         | Fulfilled new \<Rightarrow> create_session sv env new w3 = (r, w'))))"
proof -
  obtain u res w1 where g: "getSupabaseUser sv req w = (u, res, w1)"
    by (cases "getSupabaseUser sv req w") auto
  have t1: "user_profiles w1 = user_profiles w" using g by (rule getSupabaseUser_table)
  have sent: "res \<noteq> None \<Longrightarrow> \<exists>x. res = Some x \<and> http_status x = 401"
    using g
    by (auto simp add: getSupabaseUser_def logged_def Let_def missing_header_def
        invalid_token_def res_json_def split: option.splits if_splits)
  show ?thesis
  proof (cases "\<exists>usr. u = Some usr \<and> Some (JStr (user_id usr)) = field ''userId'' (req_body req)")
    case False
    then have "w' = w1 \<and> r = (if res = None then Some forbidden else res)"
      using assms g
      by (cases u) (auto simp add: create_checkout_session_def Let_def split: if_splits)
    then show ?thesis using t1 sent
      by (auto simp add: forbidden_def error_json_def res_json_def split: if_splits)
  next
    case True
    then obtain usr where u: "u = Some usr"
      and same: "Some (JStr (user_id usr)) = field ''userId'' (req_body req)" by blast
    obtain q w2 where s: "await_select sv (user_id usr) w1 = (q, w2)"
      by (cases "await_select sv (user_id usr) w1") auto
    have t2: "user_profiles w2 = user_profiles w" using s t1 by (simp add: await_select_table)
    show ?thesis
    proof (cases "\<exists>qr prof. q = Fulfilled qr \<and> error qr = None \<and> data qr = Some prof")
      case False
      then have "w' = w2 \<and> (\<forall>x. r = Some x \<longrightarrow> http_status x \<noteq> 200)"
        using assms g u same s
        by (cases q)
           (auto simp add: create_checkout_session_def Let_def error_json_def res_json_def
              profile_not_found_def split: option.splits)
      then show ?thesis using t2 by simp
    next
      case True
      then obtain qr prof where q: "q = Fulfilled qr" "error qr = None" "data qr = Some prof"
        by blast
      show ?thesis
      proof (cases "column_truthy (stripe_customer_id prof)")
        case True
        then obtain cid where c: "stripe_customer_id prof = Some cid" "cid \<noteq> []"
          by (auto simp add: column_truthy_def split: option.splits)
        then have "create_session sv env cid w2 = (r, w')"
          using assms g u same s q by (simp add: create_checkout_session_def Let_def)
        then show ?thesis using g u s q True c by auto
      next
        case False
        obtain cr w3 where cc: "create_customer sv usr prof (user_id usr) w2 = (cr, w3)"
          by (cases "create_customer sv usr prof (user_id usr) w2") auto
        have "case cr of Rejected msg \<Rightarrow> r = Some (error_json 500 msg) \<and> w' = w3
              | Fulfilled new \<Rightarrow> create_session sv env new w3 = (r, w')"
          using assms g u same s q cc False
          by (cases cr; cases "stripe_customer_id prof")
             (auto simp add: create_checkout_session_def Let_def column_truthy_def
                split: if_splits)
        then show ?thesis using g u s q False cc by auto
      qed
    qed
  qed
qed

lemma checkout_keeps:
  assumes "create_checkout_session sv env req w = (r, w')"
  shows "list_all2 keeps_customer_id (user_profiles w) (user_profiles w')"
proof -
  from checkout_path [OF assms] consider
    (stopped) "user_profiles w' = user_profiles w"
  | (found) u res w1 qr prof w2 where
      "getSupabaseUser sv req w = (Some u, res, w1)"
      "await_select sv (user_id u) w1 = (Fulfilled qr, w2)"
      "data qr = Some prof"
      "if column_truthy (stripe_customer_id prof)
       then \<exists>cid. stripe_customer_id prof = Some cid \<and> create_session sv env cid w2 = (r, w')
       else \<exists>cr w3. create_customer sv u prof (user_id u) w2 = (cr, w3)
              \<and> (case cr of
                    Rejected msg \<Rightarrow> r = Some (error_json 500 msg) \<and> w' = w3
                  | Fulfilled new \<Rightarrow> create_session sv env new w3 = (r, w'))"
    by blast
  then show ?thesis
  proof cases
    case stopped
    then show ?thesis by (simp add: keeps_refl)
  next
    case found
    have t1: "user_profiles w1 = user_profiles w"
      using found(1) by (rule getSupabaseUser_table)
    have t2: "user_profiles w2 = user_profiles w"
      using found(2) t1 by (simp add: await_select_table)
    show ?thesis
    proof (cases "column_truthy (stripe_customer_id prof)")
      case True
      with found(4) obtain cid where "create_session sv env cid w2 = (r, w')" by auto
      then show ?thesis using t2 by (simp add: create_session_ok keeps_refl)
    next
      case False
      with found(4) obtain cr w3 where
        cc: "create_customer sv u prof (user_id u) w2 = (cr, w3)"
        and fin: "case cr of
                    Rejected msg \<Rightarrow> r = Some (error_json 500 msg) \<and> w' = w3
                  | Fulfilled new \<Rightarrow> create_session sv env new w3 = (r, w')"
        by auto
      have "\<forall>p \<in> set (user_profiles w2).
              profile_id p = user_id u \<longrightarrow> \<not> column_truthy (stripe_customer_id p)"
        using await_select_only [OF found(2) found(3)] False t1 t2 by auto
      then have k: "list_all2 keeps_customer_id (user_profiles w2) (user_profiles w3)"
        using cc by (auto intro: create_customer_keeps)
      have "user_profiles w' = user_profiles w3"
        using fin by (cases cr) (auto simp add: create_session_ok)
      then show ?thesis using k t2 by simp
    qed
  qed
qed

lemma dispatch_keeps:
  "dispatch sv ev w = (r, w') \<Longrightarrow>
     list_all2 keeps_customer_id (user_profiles w) (user_profiles w')"
  by (cases "update_fault sv")
     (auto simp add: dispatch_def await_update_def db_update_def logged_def Let_def
        list_all2_map2 keeps_customer_id_def apply_payload_def list_all2_refl
        split: if_splits)

lemma webhook_keeps:
  "webhook sv env req w = (r, w') \<Longrightarrow>
     list_all2 keeps_customer_id (user_profiles w) (user_profiles w')"
  by (auto simp add: webhook_def keeps_refl split: settled.splits prod.splits
      dest: dispatch_keeps)

lemma portal_table:
  "create_portal_session sv env req w = (r, w') \<Longrightarrow> user_profiles w' = user_profiles w"
  by (auto simp add: create_portal_session_def Let_def logged_def
      split: prod.splits option.splits settled.splits if_splits
      dest!: getSupabaseUser_table await_select_table)

lemma gemini_table:
  "gemini_proxy sv env req w = (r, w') \<Longrightarrow> user_profiles w' = user_profiles w"
  by (auto simp add: gemini_proxy_def Let_def logged_def
      split: prod.splits option.splits settled.splits if_splits
      dest!: getSupabaseUser_table)

lemma mmm_table:
  "mmm_proxy sv env req w = (r, w') \<Longrightarrow> user_profiles w' = user_profiles w"
  by (auto simp add: mmm_proxy_def Let_def logged_def
      split: prod.splits option.splits settled.splits if_splits
      dest!: getSupabaseUser_table)

lemma handle_keeps:
  assumes "handle rt sv env req w = (r, w')"
  shows "list_all2 keeps_customer_id (user_profiles w) (user_profiles w')"
  using assms
  by (cases rt)
     (auto simp add: keeps_refl dest: checkout_keeps webhook_keeps
        dest!: portal_table gemini_table mmm_table)

text \<open>The two parts of the checkout route, run one after the other, are the route.\<close>

lemma checkout_segments:
  "create_checkout_session sv env req w =
     (case checkout_until_create sv env req w of
        (Responded sent, w1) \<Rightarrow> (sent, w1)
      | (AwaitingCustomer u prof created, w1) \<Rightarrow> checkout_after_create sv env u created w1)"
  by (auto simp add: create_checkout_session_def checkout_until_create_def
      checkout_after_create_def create_customer_def awaiting_customer_def Let_def
      split: prod.splits option.splits settled.splits)

text \<open>
  C5. The claim asks that no operation ever overwrites a customer identifier that is set.
  The checkout route tests \<open>if (!stripeCustomerId)\<close> on the profile it read before
  \<open>await stripe.customers.create(...)\<close> and writes afterwards with no condition on the
  column. When two checkout calls of one user overlap, both read the profile before either
  has written; the first stores \<open>cus_1\<close>, so the identifier is set, and the second then
  stores \<open>cus_1b\<close> over it.
\<close>

theorem overlapping_checkouts_overwrite:
  "map stripe_customer_id (user_profiles example_world) = [None, Some ''cus_2'']
   \<and> map stripe_customer_id
        (user_profiles (fst (overlapping_checkouts example_services example_services_later
                               example_env checkout_u1 checkout_u1 example_world)))
     = [Some ''cus_1'', Some ''cus_2'']
   \<and> map stripe_customer_id
        (user_profiles (snd (overlapping_checkouts example_services example_services_later
                               example_env checkout_u1 checkout_u1 example_world)))
     = [Some ''cus_1b'', Some ''cus_2'']"
  by (simp add: ex_defs example_services_later_def overlapping_checkouts_def resume_def
      checkout_until_create_def checkout_after_create_def awaiting_customer_def
      getSupabaseUser_def startsWith_def access_token_def logged_def await_select_def
      db_select_single_def single_def create_session_def await_update_def db_update_def
      apply_payload_def Let_def)

theorem overlapping_checkouts_overwrite_witness:
  "map stripe_customer_id
        (user_profiles (snd (overlapping_checkouts example_services example_services_later
                               example_env checkout_u1 checkout_u1 example_world)))
   \<noteq> map stripe_customer_id
        (user_profiles (fst (overlapping_checkouts example_services example_services_later
                               example_env checkout_u1 checkout_u1 example_world)))"
  using overlapping_checkouts_overwrite by simp

text \<open>
  What does hold of the customer identifier. Through any run of the server in which each
  request is handled to its end before the next one starts, whatever the requests, the
  services' answers and the store's faults, the table keeps its rows in place, and every
  row whose customer identifier was set at the start holds the same identifier at the end.
  The run ranges over all five routes.
\<close>

theorem customer_id_never_cleared:
  "list_all2 keeps_customer_id (user_profiles w) (user_profiles (serve env reqs w))"
proof (induction reqs arbitrary: w)
  case Nil
  show ?case by (simp add: keeps_refl)
next
  case (Cons x reqs)
  obtain rt sv req where x: "x = (rt, sv, req)" by (cases x) auto
  have "list_all2 keeps_customer_id (user_profiles w)
          (user_profiles (snd (handle rt sv env req w)))"
    by (rule handle_keeps [of rt sv env req w "fst (handle rt sv env req w)"]) simp
  with Cons.IH [of "snd (handle rt sv env req w)"] show ?case
    by (auto simp add: x intro: keeps_trans)
qed

theorem customer_id_never_cleared_witness:
  "column_truthy (stripe_customer_id bob)
   \<and> stripe_customer_id
        (user_profiles
           (serve example_env
              [(CreateCheckoutSession, example_services, checkout_u1),
               (Webhook, example_services, webhook_request ''t=1,v1=good'' ''deleted''),
               (CreatePortalSession, example_services, bearer_request ''token-u1'' (JObj []))]
              example_world) ! 1)
     = stripe_customer_id bob"
proof -
  let ?w = "serve example_env
              [(CreateCheckoutSession, example_services, checkout_u1),
               (Webhook, example_services, webhook_request ''t=1,v1=good'' ''deleted''),
               (CreatePortalSession, example_services, bearer_request ''token-u1'' (JObj []))]
              example_world"
  have t: "column_truthy (stripe_customer_id bob)"
    by (simp add: bob_def column_truthy_def)
  have "list_all2 keeps_customer_id (user_profiles example_world) (user_profiles ?w)"
    by (rule customer_id_never_cleared)
  then have "keeps_customer_id (user_profiles example_world ! 1) (user_profiles ?w ! 1)"
    by (rule list_all2_nthD) (simp add: example_world_def)
  then show ?thesis using t
    by (simp add: keeps_customer_id_def example_world_def)
qed

lemma dispatch_same:
  "dispatch sv ev w = (r, w') \<Longrightarrow>
     list_all2 (\<lambda>p p'. profile_id p' = profile_id p
                  \<and> stripe_customer_id p' = stripe_customer_id p)
       (user_profiles w) (user_profiles w')"
  by (cases "update_fault sv")
     (auto simp add: dispatch_def await_update_def db_update_def logged_def Let_def
        list_all2_map2 apply_payload_def list_all2_refl split: if_splits)

lemma other_route_same:
  assumes "rt \<noteq> CreateCheckoutSession" and "handle rt sv env req w = (r, w')"
  shows "list_all2 (\<lambda>p p'. profile_id p' = profile_id p
                  \<and> stripe_customer_id p' = stripe_customer_id p)
       (user_profiles w) (user_profiles w')"
proof (cases rt)
  case Webhook
  then show ?thesis using assms(2)
    by (auto simp add: webhook_def list_all2_refl split: settled.splits prod.splits
        dest: dispatch_same)
qed (use assms in \<open>auto simp add: list_all2_refl dest!: portal_table gemini_table mmm_table\<close>)

lemma until_create_table:
  assumes "checkout_until_create sv env req w = (p, w')"
  shows "user_profiles w' = user_profiles w
       \<and> (\<forall>u prof created. p = AwaitingCustomer u prof created \<longrightarrow>
            (\<forall>q \<in> set (user_profiles w).
               profile_id q = user_id u \<longrightarrow> \<not> column_truthy (stripe_customer_id q)))"
proof -
  obtain u res w1 where g: "getSupabaseUser sv req w = (u, res, w1)"
    by (cases "getSupabaseUser sv req w") auto
  have t1: "user_profiles w1 = user_profiles w" using g by (rule getSupabaseUser_table)
  show ?thesis
  proof (cases "\<exists>usr. u = Some usr \<and> Some (JStr (user_id usr)) = field ''userId'' (req_body req)")
    case False
    then have "w' = w1 \<and> (\<exists>x. p = Responded x)"
      using assms g
      by (cases u) (auto simp add: checkout_until_create_def Let_def split: if_splits)
    then show ?thesis using t1 by auto
  next
    case True
    then obtain usr where u: "u = Some usr"
      and same: "Some (JStr (user_id usr)) = field ''userId'' (req_body req)" by blast
    obtain q w2 where s: "await_select sv (user_id usr) w1 = (q, w2)"
      by (cases "await_select sv (user_id usr) w1") auto
    have t2: "user_profiles w2 = user_profiles w" using s t1 by (simp add: await_select_table)
    show ?thesis
    proof (cases "\<exists>qr prof. q = Fulfilled qr \<and> error qr = None \<and> data qr = Some prof")
      case False
      then have "w' = w2 \<and> (\<exists>x. p = Responded x)"
        using assms g u same s
        by (cases q) (auto simp add: checkout_until_create_def Let_def split: option.splits)
      then show ?thesis using t2 by auto
    next
      case True
      then obtain qr prof where q: "q = Fulfilled qr" "error qr = None" "data qr = Some prof"
        by blast
      have only: "\<forall>x \<in> set (user_profiles w). profile_id x = user_id usr \<longrightarrow> x = prof"
        using await_select_only [of sv "user_id usr" w1 qr w2 prof] s q t1 by simp
      show ?thesis
      proof (cases "column_truthy (stripe_customer_id prof)")
        case True
        then obtain cid where c: "stripe_customer_id prof = Some cid" "cid \<noteq> []"
          by (auto simp add: column_truthy_def split: option.splits)
        then have "\<exists>sent. create_session sv env cid w2 = (sent, w') \<and> p = Responded sent"
          using assms g u same s q
          by (auto simp add: checkout_until_create_def Let_def split: prod.splits)
        then show ?thesis using t2 by (auto simp add: create_session_ok)
      next
        case False
        then have "awaiting_customer sv usr prof w2 = (p, w')"
          using assms g u same s q
          by (cases "stripe_customer_id prof")
             (auto simp add: checkout_until_create_def Let_def column_truthy_def
                split: if_splits)
        then have "p = AwaitingCustomer usr prof
                         (customers_create sv (or_else (email prof) (user_email usr)) (user_id usr))
                   \<and> user_profiles w' = user_profiles w2"
          by (auto simp add: awaiting_customer_def logged_def Let_def)
        then show ?thesis using t2 only False by auto
      qed
    qed
  qed
qed

lemma after_create_rows:
  assumes "checkout_after_create sv env u created w = (r, w')"
  shows "list_all2 (\<lambda>p p'. profile_id p' = profile_id p
                  \<and> (profile_id p \<noteq> user_id u \<longrightarrow> stripe_customer_id p' = stripe_customer_id p))
       (user_profiles w) (user_profiles w')"
  using assms
  by (cases "update_fault sv"; cases created)
     (auto simp add: checkout_after_create_def await_update_def db_update_def logged_def Let_def
        list_all2_map2 apply_payload_def list_all2_refl create_session_ok
        split: if_splits prod.splits settled.splits)

text \<open>
  Nor is an identifier lost when a checkout request is overlapped by a request to any other
  route: only a second checkout of the same user, between the read and the write of the
  first, writes over an identifier that is set.
\<close>

theorem overlapping_other_route_keeps_customer_id:
  assumes "rt \<noteq> CreateCheckoutSession"
  shows "list_all2 keeps_customer_id (user_profiles w)
           (user_profiles (overlapping_request sv1 req1 rt sv2 req2 env w))"
proof -
  obtain p1 wa where a: "checkout_until_create sv1 env req1 w = (p1, wa)"
    by (cases "checkout_until_create sv1 env req1 w") auto
  obtain r wb where b: "handle rt sv2 env req2 wa = (r, wb)"
    by (cases "handle rt sv2 env req2 wa") auto
  have ta: "user_profiles wa = user_profiles w"
    using until_create_table [OF a] by simp
  have same: "list_all2 (\<lambda>p p'. profile_id p' = profile_id p
                  \<and> stripe_customer_id p' = stripe_customer_id p)
       (user_profiles w) (user_profiles wb)"
    using other_route_same [OF assms b] ta by simp
  have res: "overlapping_request sv1 req1 rt sv2 req2 env w = resume sv1 env p1 wb"
    by (simp add: overlapping_request_def a b)
  show ?thesis
  proof (cases p1)
    case (Responded sent)
    then have "resume sv1 env p1 wb = wb" by (simp add: resume_def)
    with same res show ?thesis
      by (auto simp add: keeps_customer_id_def elim: list_all2_mono)
  next
    case (AwaitingCustomer u prof created)
    obtain r' wc where c: "checkout_after_create sv1 env u created wb = (r', wc)"
      by (cases "checkout_after_create sv1 env u created wb") auto
    have wc: "resume sv1 env p1 wb = wc"
      by (simp add: resume_def AwaitingCustomer c)
    have unset: "\<forall>q \<in> set (user_profiles w).
               profile_id q = user_id u \<longrightarrow> \<not> column_truthy (stripe_customer_id q)"
      using until_create_table [OF a] AwaitingCustomer by blast
    have len1: "length (user_profiles w) = length (user_profiles wb)"
      using same by (rule list_all2_lengthD)
    have len2: "length (user_profiles wb) = length (user_profiles wc)"
      using after_create_rows [OF c] by (rule list_all2_lengthD)
    have "list_all2 keeps_customer_id (user_profiles w) (user_profiles wc)"
    proof (rule list_all2_all_nthI)
      show "length (user_profiles w) = length (user_profiles wc)" using len1 len2 by simp
    next
      fix n assume n: "n < length (user_profiles w)"
      let ?p = "user_profiles w ! n" and ?q = "user_profiles wb ! n"
      let ?r = "user_profiles wc ! n"
      have pq: "profile_id ?q = profile_id ?p \<and> stripe_customer_id ?q = stripe_customer_id ?p"
        using list_all2_nthD [OF same n] by simp
      have qr: "profile_id ?r = profile_id ?q
                \<and> (profile_id ?q \<noteq> user_id u \<longrightarrow> stripe_customer_id ?r = stripe_customer_id ?q)"
        using list_all2_nthD [OF after_create_rows [OF c]] n len1 by simp
      have "?p \<in> set (user_profiles w)" using n by simp
      then have "column_truthy (stripe_customer_id ?p) \<longrightarrow> profile_id ?p \<noteq> user_id u"
        using unset by blast
      with pq qr show "keeps_customer_id ?p ?r"
        by (simp add: keeps_customer_id_def)
    qed
    with res wc show ?thesis by simp
  qed
qed

theorem overlapping_other_route_keeps_customer_id_witness:
  "list_all2 keeps_customer_id [alice, bob]
     (user_profiles
        (overlapping_request example_services checkout_u1 Webhook example_services
           (webhook_request ''t=1,v1=good'' ''deleted'') example_env example_world))"
proof -
  have h: "Webhook \<noteq> CreateCheckoutSession" by simp
  have t: "user_profiles example_world = [alice, bob]" by (simp add: example_world_def)
  show ?thesis
    using overlapping_other_route_keeps_customer_id
      [OF h, of example_world example_services checkout_u1 example_services
         "webhook_request ''t=1,v1=good'' ''deleted''" example_env]
    by (simp add: t)
qed

text \<open>
  The first successful checkout call of a user with no identifier creates the customer;
  a successful call is one answered 200 with a session identifier.
\<close>

lemma checkout_ok:
  assumes "create_checkout_session sv env req w = (Some r, w')" and "http_status r = 200"
  shows "\<exists>u res w1 qr prof w2.
           getSupabaseUser sv req w = (Some u, res, w1)
         \<and> await_select sv (user_id u) w1 = (Fulfilled qr, w2)
         \<and> data qr = Some prof
         \<and> (if column_truthy (stripe_customer_id prof)
            then \<exists>cid. stripe_customer_id prof = Some cid
                   \<and> create_session sv env cid w2 = (Some r, w')
            else \<exists>new w3. create_customer sv u prof (user_id u) w2 = (Fulfilled new, w3)
                   \<and> create_session sv env new w3 = (Some r, w'))"
proof -
  from checkout_path [OF assms(1)] assms(2) obtain u res w1 qr prof w2 where
    g: "getSupabaseUser sv req w = (Some u, res, w1)"
    and s: "await_select sv (user_id u) w1 = (Fulfilled qr, w2)"
    and d: "data qr = Some prof"
    and br: "if column_truthy (stripe_customer_id prof)
       then \<exists>cid. stripe_customer_id prof = Some cid
              \<and> create_session sv env cid w2 = (Some r, w')
       else \<exists>cr w3. create_customer sv u prof (user_id u) w2 = (cr, w3)
              \<and> (case cr of
                    Rejected msg \<Rightarrow> Some r = Some (error_json 500 msg) \<and> w' = w3
                  | Fulfilled new \<Rightarrow> create_session sv env new w3 = (Some r, w'))"
    by blast
  show ?thesis
  proof (cases "column_truthy (stripe_customer_id prof)")
    case True
    then show ?thesis using g s d br by auto
  next
    case False
    with br obtain cr w3 where
      cc: "create_customer sv u prof (user_id u) w2 = (cr, w3)"
      and fin: "case cr of
                  Rejected msg \<Rightarrow> Some r = Some (error_json 500 msg) \<and> w' = w3
                | Fulfilled new \<Rightarrow> create_session sv env new w3 = (Some r, w')"
      by auto
    have "\<exists>new. cr = Fulfilled new \<and> create_session sv env new w3 = (Some r, w')"
      using fin assms(2) by (cases cr) (auto simp add: error_json_def res_json_def)
    then show ?thesis using g s d False cc by auto
  qed
qed

lemma filter_auth_calls:
  assumes "calls w1 = calls w \<or> (\<exists>t. calls w1 = calls w @ [AuthGetUser t])"
  shows "filter is_customer_creation (calls w1) = filter is_customer_creation (calls w)
       \<and> filter is_customer_id_store (calls w1) = filter is_customer_id_store (calls w)"
  using assms by auto

text \<open>
  C4. The claim asks that two successive successful checkout calls of a user without an
  identifier create one customer upstream and reuse the stored identifier. The route awaits
  the update that stores the identifier and drops its answer: when the store answers that
  update with an error object, the first call is still answered 200 with a session
  identifier and nothing is stored, and the second call, answered 200 as well, creates a
  second customer and a session for the new identifier \<open>cus_1b\<close>, not for \<open>cus_1\<close>.
\<close>

theorem checkout_store_error_creates_second_customer:
  "successive_checkouts example_services_store_down example_services_later example_env
     checkout_u1 example_world =
   ((Some \<lparr>http_status = 200, http_body = JsonBody (JObj [(''sessionId'', JStr ''cs_1'')])\<rparr>,
     \<lparr>user_profiles = [alice, bob],
      calls =
        [AuthGetUser (Text ''token-u1''), DbSelect IdColumn ''u1'',
         CustomersCreate (Text ''alice@example.com'') ''u1'',
         DbUpdate \<lparr>set_stripe_customer_id = Text ''cus_1'', set_subscription_id = Absent,
                   set_subscription_status = Absent\<rparr> IdColumn ''u1'',
         CheckoutSessionsCreate
           \<lparr>cp_customer = ''cus_1'', cp_mode = ''subscription'', cp_price = Text ''price_1'',
            cp_quantity = 1, cp_trial_period_days = 2,
            cp_success_url = ''https://app.example?payment_success=true'',
            cp_cancel_url = ''https://app.example?payment_cancel=true''\<rparr>]\<rparr>),
    (Some \<lparr>http_status = 200, http_body = JsonBody (JObj [(''sessionId'', JStr ''cs_1'')])\<rparr>,
     \<lparr>user_profiles = [alice\<lparr>stripe_customer_id := Some ''cus_1b''\<rparr>, bob],
      calls =
        [AuthGetUser (Text ''token-u1''), DbSelect IdColumn ''u1'',
         CustomersCreate (Text ''alice@example.com'') ''u1'',
         DbUpdate \<lparr>set_stripe_customer_id = Text ''cus_1'', set_subscription_id = Absent,
                   set_subscription_status = Absent\<rparr> IdColumn ''u1'',
         CheckoutSessionsCreate
           \<lparr>cp_customer = ''cus_1'', cp_mode = ''subscription'', cp_price = Text ''price_1'',
            cp_quantity = 1, cp_trial_period_days = 2,
            cp_success_url = ''https://app.example?payment_success=true'',
            cp_cancel_url = ''https://app.example?payment_cancel=true''\<rparr>,
         AuthGetUser (Text ''token-u1''), DbSelect IdColumn ''u1'',
         CustomersCreate (Text ''alice@example.com'') ''u1'',
         DbUpdate \<lparr>set_stripe_customer_id = Text ''cus_1b'', set_subscription_id = Absent,
                   set_subscription_status = Absent\<rparr> IdColumn ''u1'',
         CheckoutSessionsCreate
           \<lparr>cp_customer = ''cus_1b'', cp_mode = ''subscription'', cp_price = Text ''price_1'',
            cp_quantity = 1, cp_trial_period_days = 2,
            cp_success_url = ''https://app.example?payment_success=true'',
            cp_cancel_url = ''https://app.example?payment_cancel=true''\<rparr>]\<rparr>))"
  by (simp add: ex_defs example_services_later_def example_services_store_down_def
      successive_checkouts_def create_checkout_session_def getSupabaseUser_def startsWith_def
      access_token_def logged_def await_select_def db_select_single_def single_def
      create_customer_def create_session_def await_update_def db_update_def apply_payload_def
      res_json_def session_params_def env_sval_def env_template_def Let_def)

theorem checkout_store_error_creates_second_customer_witness:
  "length (filter is_customer_creation
     (calls (snd (snd (successive_checkouts example_services_store_down
                         example_services_later example_env checkout_u1 example_world))))) = 2
   \<and> length (filter is_customer_id_store
     (calls (snd (snd (successive_checkouts example_services_store_down
                         example_services_later example_env checkout_u1 example_world))))) = 2"
  using checkout_store_error_creates_second_customer by simp

text \<open>
  What does hold of two checkout calls in a row for the same user, both answered 200 with
  a session identifier, starting from a table in which that user's profile has no customer
  identifier set: when the store carries the first call's update out and the upstream
  returns a non-empty identifier, one customer is created upstream and one identifier is
  written to the store over the two calls; after the first call the user's profile holds
  the created identifier; the second call changes no row, and the last call it makes
  creates a checkout session whose customer is that stored identifier.
\<close>

theorem checkout_creates_customer_once:
  assumes first: "create_checkout_session sv1 env req1 w = (Some r1, w1)"
      and ok1: "http_status r1 = 200"
      and second: "create_checkout_session sv2 env req2 w1 = (Some r2, w2)"
      and ok2: "http_status r2 = 200"
      and who1: "fst (getSupabaseUser sv1 req1 w) = Some u"
      and who2: "fst (getSupabaseUser sv2 req2 w1) = Some u'"
      and same: "user_id u' = user_id u"
      and unset: "\<forall>p \<in> set (user_profiles w).
                    profile_id p = user_id u \<longrightarrow> \<not> column_truthy (stripe_customer_id p)"
      and stored: "update_fault sv1 = NoFault"
      and nonempty: "\<forall>em cid. customers_create sv1 em (user_id u) = Fulfilled cid \<longrightarrow> cid \<noteq> []"
  shows "\<exists>em cid.
           customers_create sv1 em (user_id u) = Fulfilled cid
         \<and> length (filter is_customer_creation (calls w2))
             = length (filter is_customer_creation (calls w)) + 1
         \<and> length (filter is_customer_id_store (calls w2))
             = length (filter is_customer_id_store (calls w)) + 1
         \<and> user_profiles w1 =
             map (\<lambda>p. if profile_id p = user_id u then p\<lparr>stripe_customer_id := Some cid\<rparr> else p)
               (user_profiles w)
         \<and> user_profiles w2 = user_profiles w1
         \<and> (\<exists>ps. last (calls w2) = CheckoutSessionsCreate ps \<and> cp_customer ps = cid)"
proof -
  from checkout_ok [OF first ok1] obtain x res a qr prof b where
    g1: "getSupabaseUser sv1 req1 w = (Some x, res, a)"
    and s1: "await_select sv1 (user_id x) a = (Fulfilled qr, b)"
    and d1: "data qr = Some prof"
    and br1: "if column_truthy (stripe_customer_id prof)
            then \<exists>cid. stripe_customer_id prof = Some cid
                   \<and> create_session sv1 env cid b = (Some r1, w1)
            else \<exists>new w3. create_customer sv1 x prof (user_id x) b = (Fulfilled new, w3)
                   \<and> create_session sv1 env new w3 = (Some r1, w1)"
    by blast
  have x: "x = u" using g1 who1 by simp
  have ta: "user_profiles a = user_profiles w" using g1 by (rule getSupabaseUser_table)
  have tb: "user_profiles b = user_profiles w" using s1 ta by (simp add: await_select_table)
  have "prof \<in> set (user_profiles w) \<and> profile_id prof = user_id u"
    using await_select_data [OF s1 d1] ta x by simp
  then have "\<not> column_truthy (stripe_customer_id prof)" using unset by blast
  with br1 obtain new c where
    cc: "create_customer sv1 u prof (user_id u) b = (Fulfilled new, c)"
    and cs: "create_session sv1 env new c = (Some r1, w1)"
    using x by auto
  let ?em = "or_else (email prof) (user_email u)"
  from create_customer_ok [OF cc stored] have
    made: "customers_create sv1 ?em (user_id u) = Fulfilled new"
    and cc_calls: "calls c = calls b @ [CustomersCreate ?em (user_id u),
          DbUpdate \<lparr>set_stripe_customer_id = Text new, set_subscription_id = Absent,
                    set_subscription_status = Absent\<rparr> IdColumn (user_id u)]"
    and cc_tbl: "user_profiles c =
         map (\<lambda>p. if profile_id p = user_id u then p\<lparr>stripe_customer_id := Some new\<rparr> else p)
           (user_profiles b)"
    by simp_all
  have new: "new \<noteq> []" using made nonempty by blast
  have w1_calls: "calls w1 = calls c @ [CheckoutSessionsCreate (session_params env new)]"
    and w1_tbl: "user_profiles w1 = user_profiles c"
    using create_session_ok [OF cs] by simp_all
  have b_calls: "calls b = calls a @ [DbSelect IdColumn (user_id u)]"
    using await_select_calls [OF s1] x by simp
  have n1: "length (filter is_customer_creation (calls w1))
              = length (filter is_customer_creation (calls w)) + 1"
    and m1: "length (filter is_customer_id_store (calls w1))
              = length (filter is_customer_id_store (calls w)) + 1"
    using filter_auth_calls [OF getSupabaseUser_calls [OF g1]]
    by (simp_all add: w1_calls cc_calls b_calls)
  have tbl1: "user_profiles w1 =
      map (\<lambda>p. if profile_id p = user_id u then p\<lparr>stripe_customer_id := Some new\<rparr> else p)
        (user_profiles w)"
    by (simp add: w1_tbl cc_tbl tb)
  from checkout_ok [OF second ok2] obtain y res' a' qr' prof' b' where
    g2: "getSupabaseUser sv2 req2 w1 = (Some y, res', a')"
    and s2: "await_select sv2 (user_id y) a' = (Fulfilled qr', b')"
    and d2: "data qr' = Some prof'"
    and br2: "if column_truthy (stripe_customer_id prof')
            then \<exists>cid. stripe_customer_id prof' = Some cid
                   \<and> create_session sv2 env cid b' = (Some r2, w2)
            else \<exists>new w3. create_customer sv2 y prof' (user_id y) b' = (Fulfilled new, w3)
                   \<and> create_session sv2 env new w3 = (Some r2, w2)"
    by blast
  have y: "user_id y = user_id u" using g2 who2 same by simp
  have ta': "user_profiles a' = user_profiles w1" using g2 by (rule getSupabaseUser_table)
  have tb': "user_profiles b' = user_profiles w1" using s2 ta' by (simp add: await_select_table)
  have "prof' \<in> set (user_profiles w1) \<and> profile_id prof' = user_id u"
    using await_select_data [OF s2 d2] ta' y by simp
  then have "stripe_customer_id prof' = Some new"
    by (auto simp add: tbl1 split: if_splits)
  with br2 new have cs2: "create_session sv2 env new b' = (Some r2, w2)"
    by (simp add: column_truthy_def)
  have w2_calls: "calls w2 = calls b' @ [CheckoutSessionsCreate (session_params env new)]"
    and w2_tbl: "user_profiles w2 = user_profiles b'"
    using create_session_ok [OF cs2] by simp_all
  have b'_calls: "calls b' = calls a' @ [DbSelect IdColumn (user_id y)]"
    using await_select_calls [OF s2] by simp
  have n2: "length (filter is_customer_creation (calls w2))
              = length (filter is_customer_creation (calls w1))"
    and m2: "length (filter is_customer_id_store (calls w2))
              = length (filter is_customer_id_store (calls w1))"
    using filter_auth_calls [OF getSupabaseUser_calls [OF g2]]
    by (simp_all add: w2_calls b'_calls)
  have "cp_customer (session_params env new) = new"
    by (simp add: session_params_def)
  then show ?thesis
    using made n1 m1 n2 m2 tbl1 w2_tbl tb' w2_calls by auto
qed

theorem checkout_creates_customer_once_witness:
  "length (filter is_customer_creation
     (calls (snd (create_checkout_session example_services example_env checkout_u1
        (snd (create_checkout_session example_services example_env checkout_u1
           example_world)))))) = 1
   \<and> length (filter is_customer_id_store
     (calls (snd (create_checkout_session example_services example_env checkout_u1
        (snd (create_checkout_session example_services example_env checkout_u1
           example_world)))))) = 1
   \<and> (\<exists>ps. last (calls (snd (create_checkout_session example_services example_env
             checkout_u1
             (snd (create_checkout_session example_services example_env checkout_u1
                example_world)))))
          = CheckoutSessionsCreate ps
        \<and> cp_customer ps = ''cus_1'')"
proof -
  let ?r = "\<lparr>http_status = 200, http_body = JsonBody (JObj [(''sessionId'', JStr ''cs_1'')])\<rparr>"
  let ?u = "\<lparr>user_id = ''u1'', user_email = Text ''u1@example.com''\<rparr>"
  let ?w1 = "snd (create_checkout_session example_services example_env checkout_u1
                    example_world)"
  let ?w2 = "snd (create_checkout_session example_services example_env checkout_u1 ?w1)"
  note run = ex_defs create_checkout_session_def getSupabaseUser_def startsWith_def
    access_token_def logged_def await_select_def db_select_single_def single_def
    create_customer_def create_session_def await_update_def db_update_def apply_payload_def
    res_json_def Let_def
  have w1: "?w1 = \<lparr>user_profiles = [alice\<lparr>stripe_customer_id := Some ''cus_1''\<rparr>, bob],
                   calls = [AuthGetUser (Text ''token-u1''), DbSelect IdColumn ''u1'',
                            CustomersCreate (Text ''alice@example.com'') ''u1'',
                            DbUpdate \<lparr>set_stripe_customer_id = Text ''cus_1'',
                                      set_subscription_id = Absent,
                                      set_subscription_status = Absent\<rparr> IdColumn ''u1'',
                            CheckoutSessionsCreate (session_params example_env ''cus_1'')]\<rparr>"
    by (simp add: run)
  have f1: "fst (create_checkout_session example_services example_env checkout_u1
                   example_world) = Some ?r"
    by (simp add: run)
  have h1: "create_checkout_session example_services example_env checkout_u1 example_world
            = (Some ?r, ?w1)"
    using f1 by (simp add: prod_eq_iff)
  have f2: "fst (create_checkout_session example_services example_env checkout_u1 ?w1) = Some ?r"
    unfolding w1 by (simp add: run)
  have h2: "create_checkout_session example_services example_env checkout_u1 ?w1
            = (Some ?r, ?w2)"
    using f2 by (simp add: prod_eq_iff)
  have ok: "http_status ?r = 200" by simp
  have who1: "fst (getSupabaseUser example_services checkout_u1 example_world) = Some ?u"
    by (simp add: ex_defs getSupabaseUser_def startsWith_def access_token_def Let_def)
  have who2: "fst (getSupabaseUser example_services checkout_u1 ?w1) = Some ?u"
    by (simp add: ex_defs getSupabaseUser_def startsWith_def access_token_def Let_def)
  have same: "user_id ?u = user_id ?u" by simp
  have unset: "\<forall>p \<in> set (user_profiles example_world).
                 profile_id p = user_id ?u \<longrightarrow> \<not> column_truthy (stripe_customer_id p)"
    by (simp add: example_world_def alice_def bob_def column_truthy_def)
  have stored: "update_fault example_services = NoFault"
    by (simp add: example_services_def)
  have nonempty: "\<forall>em cid. customers_create example_services em (user_id ?u) = Fulfilled cid
                    \<longrightarrow> cid \<noteq> []"
    by (auto simp add: example_services_def)
  have made: "\<And>em cid. customers_create example_services em ''u1'' = Fulfilled cid
                \<longleftrightarrow> cid = ''cus_1''"
    by (auto simp add: example_services_def)
  have none: "calls example_world = []" by (simp add: example_world_def)
  show ?thesis
    using checkout_creates_customer_once
      [OF h1 ok h2 ok who1 who2 same unset stored nonempty]
    by (simp add: made none)
qed

text \<open>
  A valid token for another user than the one named in the body: the checkout route answers
  403 before it reads the store or calls the payments provider.
\<close>

theorem checkout_forbidden_on_mismatch:
  assumes "getSupabaseUser sv req w = (Some u, res, w1)"
    and "field ''userId'' (req_body req) \<noteq> Some (JStr (user_id u))"
  shows "create_checkout_session sv env req w =
           (Some \<lparr>http_status = 403,
                  http_body = JsonBody
                    (JObj [(''error'', JStr ''User token does not match requested user ID.'')])\<rparr>,
            w1)
         \<and> user_profiles w1 = user_profiles w
         \<and> (\<exists>t. calls w1 = calls w @ [AuthGetUser t])"
proof -
  have "res = None" using assms(1) by (rule getSupabaseUser_sent)
  moreover have "user_profiles w1 = user_profiles w"
    using assms(1) by (rule getSupabaseUser_table)
  moreover have "\<exists>t. calls w1 = calls w @ [AuthGetUser t]"
    using assms(1)
    by (auto simp add: getSupabaseUser_def logged_def Let_def split: option.splits if_splits)
  ultimately show ?thesis
    using assms
    by (auto simp add: create_checkout_session_def forbidden_def error_json_def res_json_def)
qed

theorem checkout_forbidden_on_mismatch_witness:
  "create_checkout_session example_services example_env
     (bearer_request ''token-u1'' (JObj [(''userId'', JStr ''u2'')])) example_world =
   (Some \<lparr>http_status = 403,
          http_body = JsonBody
            (JObj [(''error'', JStr ''User token does not match requested user ID.'')])\<rparr>,
    logged (AuthGetUser (Text ''token-u1'')) example_world)"
proof -
  let ?req = "bearer_request ''token-u1'' (JObj [(''userId'', JStr ''u2'')])"
  let ?u = "\<lparr>user_id = ''u1'', user_email = Text ''u1@example.com''\<rparr>"
  have h1: "getSupabaseUser example_services ?req example_world
            = (Some ?u, None, logged (AuthGetUser (Text ''token-u1'')) example_world)"
    by (simp add: ex_defs getSupabaseUser_def startsWith_def access_token_def)
  have h2: "field ''userId'' (req_body ?req) \<noteq> Some (JStr (user_id ?u))"
    by (simp add: bearer_request_def)
  show ?thesis
    using checkout_forbidden_on_mismatch [OF h1 h2, of example_env] by simp
qed

end
